theory Spec2Isabelle
  imports Main "HOL-Library.AList"
begin

section \<open>The SeisHub client of ObsPy (obspy/seishub/client.py)\<close>

text \<open>
  The client turns keyword arguments into the query string of a GET request, issues
  requests with explicit HTTP verbs, and decodes the answers. Every function below is
  the source function of the same name; what the source gets from outside this file
  (the network, the XML parser, pickle, float formatting) is a parameter of the model.
\<close>

subsection \<open>Errors and the network\<close>

text \<open>
  Every \<open>raise\<close> of the source is a value: the exception class with its message.
  \<open>TransportError\<close> stands for whatever \<open>urllib2.urlopen\<close> raises by itself.
\<close>

datatype error =
    ValueError string
  | TypeError string
  | KeyError string
  | IndexError string
  | AttributeError string
  | OSError string
  | IOError string
  | Exception string
  | TransportError string

text \<open>A request object as \<open>RequestWithMethod\<close> holds it.\<close>

record request =
  req_method :: string
  req_url :: string
  req_data :: "string option"
  req_headers :: "(string \<times> string) list"

text \<open>
  The calls that reach the network, in the order they are made: \<open>urlopen\<close> on an address
  (the read-only fetch) or on a request object.
\<close>

datatype net_call = OpenUrl string | OpenRequest request

text \<open>What \<open>urllib2.urlopen(req)\<close> does in \<open>_HTTP_request\<close>: a response, an
  \<open>HTTPError\<close> (both carry a code and a message), or another exception.\<close>

datatype http_outcome = Response nat string | HTTPError nat string | Failure error

definition HTTP_ACCEPTED_DATA_METHODS :: "string list" where
  "HTTP_ACCEPTED_DATA_METHODS = [''PUT'', ''POST'']"

definition HTTP_ACCEPTED_NODATA_METHODS :: "string list" where
  "HTTP_ACCEPTED_NODATA_METHODS = [''HEAD'', ''GET'', ''DELETE'']"

definition HTTP_ACCEPTED_METHODS :: "string list" where
  "HTTP_ACCEPTED_METHODS = HTTP_ACCEPTED_DATA_METHODS @ HTTP_ACCEPTED_NODATA_METHODS"

text \<open>\<open>str(HTTP_ACCEPTED_METHODS)\<close>, as the two messages print it.\<close>

definition accepted_methods_str :: string where
  "accepted_methods_str =
     [CHR ''[''] @ [CHR 0x27] @ ''PUT'' @ [CHR 0x27] @ '', '' @ [CHR 0x27] @ ''POST'' @ [CHR 0x27]
       @ '', '' @ [CHR 0x27] @ ''HEAD'' @ [CHR 0x27] @ '', '' @ [CHR 0x27] @ ''GET'' @ [CHR 0x27]
       @ '', '' @ [CHR 0x27] @ ''DELETE'' @ [CHR 0x27] @ [CHR '']'']"

text \<open>Truth value of the \<open>xml_string\<close> argument: \<open>None\<close> and the empty string are false.\<close>

fun body_given :: "string option \<Rightarrow> bool" where
  "body_given None = False"
| "body_given (Some s) = (s \<noteq> [])"

text \<open>\<open>RequestWithMethod.__init__\<close> (lines 944-950).\<close>

definition RequestWithMethod ::
  "string \<Rightarrow> string \<Rightarrow> string option \<Rightarrow> (string \<times> string) list \<Rightarrow> error + request" where
  "RequestWithMethod method url data headers =
     (if method \<notin> set HTTP_ACCEPTED_METHODS
      then Inl (ValueError (''HTTP Method not supported. Supported are: '' @ accepted_methods_str @ ''.''))
      else Inr \<lparr>req_method = method, req_url = url, req_data = data, req_headers = headers\<rparr>)"

text \<open>
  \<open>Client._HTTP_request\<close> (lines 147-177). \<open>urlopen\<close> is the server as the call sees it;
  the list of network calls made so far is passed in and returned, so that a call that
  never reaches the network returns it unchanged.
\<close>

definition HTTP_request ::
  "(request \<Rightarrow> http_outcome) \<Rightarrow> string \<Rightarrow> string \<Rightarrow> string option \<Rightarrow> (string \<times> string) list
     \<Rightarrow> net_call list \<Rightarrow> (error + nat \<times> string) \<times> net_call list" where
  "HTTP_request urlopen url method xml_string headers net =
     (if method \<notin> set HTTP_ACCEPTED_METHODS
      then (Inl (ValueError (''Method must be one of '' @ accepted_methods_str)), net)
      else if method \<in> set HTTP_ACCEPTED_DATA_METHODS \<and> \<not> body_given xml_string
      then (Inl (TypeError (''Missing data for '' @ method @ '' request.'')), net)
      else if method \<in> set HTTP_ACCEPTED_NODATA_METHODS \<and> body_given xml_string
      then (Inl (TypeError (''Unexpected data for '' @ method @ '' request.'')), net)
      else
        (case RequestWithMethod method url xml_string headers of
           Inl e \<Rightarrow> (Inl e, net)
         | Inr req \<Rightarrow>
             (case urlopen req of
                Response code msg \<Rightarrow> (Inr (code, msg), net @ [OpenRequest req])
              | HTTPError code msg \<Rightarrow> (Inr (code, msg), net @ [OpenRequest req])
              | Failure e \<Rightarrow> (Inl e, net @ [OpenRequest req]))))"

subsection \<open>Python values\<close>

text \<open>
  The values that reach the client as keyword arguments or come out of the XML decoder.
  Floats and time stamps stay abstract: \<open>'f\<close> is the type of Python floats and \<open>'t\<close> that
  of the \<open>UTCDateTime\<close> objects of \<open>obspy.core\<close>, and what the source does with them is a
  record of operations passed to every function that needs one: for a float its truth
  value, \<open>str\<close>, \<open>repr\<close>, \<open>float(s)\<close>, \<open>float(i)\<close>, \<open>'%.nf' % x\<close>, literals, \<open>+\<close>, \<open>-\<close>,
  \<open>*\<close>, \<open>/\<close> and \<open>math.log\<close>; for a time stamp \<open>str\<close>, \<open>repr\<close>, \<open>UTCDateTime(s)\<close> and the
  time stamp a number of seconds earlier or later. \<open>float_of_str\<close> and \<open>float_log\<close>
  give \<open>None\<close> where Python raises ValueError, \<open>float_div\<close> where it raises
  ZeroDivisionError; \<open>time_of_str\<close> gives the time stamp or the exception \<open>UTCDateTime\<close>
  raises. A time stamp is an object without a truth value of its own, so it is true.
\<close>

datatype ('f, 't) pyval =
    PNone
  | PBool bool
  | PInt int
  | PFloat 'f
  | PTime 't
  | PStr string
  | PTuple "('f, 't) pyval list"
  | PList "('f, 't) pyval list"

record ('f, 't) py_ops =
  float_nonzero :: "'f \<Rightarrow> bool"
  float_str :: "'f \<Rightarrow> string"
  float_repr :: "'f \<Rightarrow> string"
  float_of_str :: "string \<Rightarrow> 'f option"
  float_of_int :: "int \<Rightarrow> 'f"
  float_fmt :: "nat \<Rightarrow> 'f \<Rightarrow> string"
  float_lit :: "string \<Rightarrow> 'f"
  float_add :: "'f \<Rightarrow> 'f \<Rightarrow> 'f"
  float_sub :: "'f \<Rightarrow> 'f \<Rightarrow> 'f"
  float_mul :: "'f \<Rightarrow> 'f \<Rightarrow> 'f"
  float_div :: "'f \<Rightarrow> 'f \<Rightarrow> 'f option"
  float_log :: "'f \<Rightarrow> 'f option"
  time_str :: "'t \<Rightarrow> string"
  time_repr :: "'t \<Rightarrow> string"
  time_of_str :: "string \<Rightarrow> error + 't"
  time_sub :: "'t \<Rightarrow> 'f \<Rightarrow> 't"
  time_add :: "'t \<Rightarrow> 'f \<Rightarrow> 't"

type_synonym ('f, 't) pydict = "(string \<times> ('f, 't) pyval) list"

text \<open>
  A dict is an association list with one entry per key: \<open>d[k] = v\<close> is \<open>AList.update\<close>,
  \<open>del d[k]\<close> is \<open>AList.delete\<close>, \<open>d[k]\<close> is \<open>map_of d k\<close>, and iteration runs through the
  list. Python 2 iterates a dict in an order of its own, so a property of the code is one
  that holds for every order of the list.
\<close>

text \<open>Truth value of a value (\<open>if not value\<close>).\<close>

fun truthy :: "('f, 't) py_ops \<Rightarrow> ('f, 't) pyval \<Rightarrow> bool" where
  "truthy ops PNone = False"
| "truthy ops (PBool b) = b"
| "truthy ops (PInt i) = (i \<noteq> 0)"
| "truthy ops (PFloat x) = float_nonzero ops x"
| "truthy ops (PTime t) = True"
| "truthy ops (PStr s) = (s \<noteq> [])"
| "truthy ops (PTuple xs) = (xs \<noteq> [])"
| "truthy ops (PList xs) = (xs \<noteq> [])"

text \<open>Decimal digits of an integer, as \<open>str\<close> prints them.\<close>

fun show_nat :: "nat \<Rightarrow> string" where
  "show_nat n = (if n < 10 then [''0123456789'' ! n]
                 else show_nat (n div 10) @ [''0123456789'' ! (n mod 10)])"

declare show_nat.simps [simp del]

definition show_int :: "int \<Rightarrow> string" where
  "show_int i = (if i < 0 then ''-'' @ show_nat (nat (- i)) else show_nat (nat i))"

text \<open>\<open>sep.join(xs)\<close>.\<close>

fun str_join :: "string \<Rightarrow> string list \<Rightarrow> string" where
  "str_join sep [] = []"
| "str_join sep [x] = x"
| "str_join sep (x # y # ys) = x @ sep @ str_join sep (y # ys)"

text \<open>
  \<open>repr\<close> of a byte string in Python 2: single quotes unless the string has a single
  quote and no double quote; the quote and the backslash escaped, tab, newline and return
  by letter, the other bytes outside the printable ASCII range as \<open>\xNN\<close>.
\<close>

definition repr_quote :: "string \<Rightarrow> char" where
  "repr_quote s = (if CHR 0x27 \<in> set s \<and> CHR 0x22 \<notin> set s then CHR 0x22 else CHR 0x27)"

definition hex2 :: "string \<Rightarrow> nat \<Rightarrow> string" where
  "hex2 digits n = [digits ! (n div 16), digits ! (n mod 16)]"

definition repr_char :: "char \<Rightarrow> char \<Rightarrow> string" where
  "repr_char q c =
     (if c = q \<or> c = CHR 0x5C then [CHR 0x5C, c]
      else if c = CHR 0x09 then [CHR 0x5C, CHR ''t'']
      else if c = CHR 0x0A then [CHR 0x5C, CHR ''n'']
      else if c = CHR 0x0D then [CHR 0x5C, CHR ''r'']
      else if (of_char c :: nat) < 32 \<or> (of_char c :: nat) \<ge> 127
      then [CHR 0x5C, CHR ''x''] @ hex2 ''0123456789abcdef'' (of_char c)
      else [c])"

definition repr_str :: "string \<Rightarrow> string" where
  "repr_str s = [repr_quote s] @ concat (map (repr_char (repr_quote s)) s) @ [repr_quote s]"

fun py_repr :: "('f, 't) py_ops \<Rightarrow> ('f, 't) pyval \<Rightarrow> string" where
  "py_repr ops PNone = ''None''"
| "py_repr ops (PBool b) = (if b then ''True'' else ''False'')"
| "py_repr ops (PInt i) = show_int i"
| "py_repr ops (PFloat x) = float_repr ops x"
| "py_repr ops (PTime t) = time_repr ops t"
| "py_repr ops (PStr s) = repr_str s"
| "py_repr ops (PTuple xs) =
     ''('' @ str_join '', '' (map (py_repr ops) xs) @ (if length xs = 1 then '','' else []) @ '')''"
| "py_repr ops (PList xs) = ''['' @ str_join '', '' (map (py_repr ops) xs) @ '']''"

text \<open>\<open>str(value)\<close>: a string is itself, a float and a time stamp have their own \<open>str\<close>, the
  rest print as \<open>repr\<close>.\<close>

fun py_str :: "('f, 't) py_ops \<Rightarrow> ('f, 't) pyval \<Rightarrow> string" where
  "py_str ops (PStr s) = s"
| "py_str ops (PFloat x) = float_str ops x"
| "py_str ops (PTime t) = time_str ops t"
| "py_str ops v = py_repr ops v"

subsection \<open>Parameter normalisation and the read-only fetch\<close>

definition DEPRECATED_KEYWORDS :: "(string \<times> string) list" where
  "DEPRECATED_KEYWORDS =
     [(''network_id'', ''network''), (''station_id'', ''station''),
      (''location_id'', ''location''), (''channel_id'', ''channel''),
      (''start_datetime'', ''starttime''), (''end_datetime'', ''endtime'')]"

definition KEYWORDS :: "(string \<times> string) list" where
  "KEYWORDS =
     [(''network'', ''network_id''), (''station'', ''station_id''),
      (''location'', ''location_id''), (''channel'', ''channel_id''),
      (''starttime'', ''start_datetime''), (''endtime'', ''end_datetime'')]"

text \<open>
  The first loop of \<open>_fetch\<close> (lines 119-123, "map keywords"), over a table of
  \<open>(key, value)\<close> pairs: a key of the table that is in \<open>kwargs\<close> is stored under the
  table's value and deleted.
\<close>

fun map_keywords :: "(string \<times> string) list \<Rightarrow> ('f, 't) pydict \<Rightarrow> ('f, 't) pydict" where
  "map_keywords [] kwargs = kwargs"
| "map_keywords ((key, value) # table) kwargs =
     map_keywords table
       (case map_of kwargs key of
          Some v \<Rightarrow> AList.delete key (AList.update value v kwargs)
        | None \<Rightarrow> kwargs)"

text \<open>
  The body of the second loop (lines 125-135, "check for ranges and empty values"):
  what one \<open>(key, value)\<close> of \<open>kwargs\<close> does to \<open>params\<close>. Keyword names are strings, so
  \<open>str(key)\<close> is the key.
\<close>

definition min_max_entries ::
  "('f, 't) py_ops \<Rightarrow> string \<Rightarrow> ('f, 't) pyval list \<Rightarrow> (string \<times> string) list \<Rightarrow> (string \<times> string) list" where
  "min_max_entries ops key xs params =
     AList.update (''max_'' @ key) (py_str ops (xs ! 1))
       (AList.update (''min_'' @ key) (py_str ops (xs ! 0)) params)"

fun check_value ::
  "('f, 't) py_ops \<Rightarrow> (string \<times> string) list \<Rightarrow> string \<times> ('f, 't) pyval \<Rightarrow> (string \<times> string) list" where
  "check_value ops params (key, value) =
     (if \<not> truthy ops value then params
      else
        (case value of
           PTuple xs \<Rightarrow>
             (if length xs = 2 then min_max_entries ops key xs params
              else AList.update key (py_str ops value) params)
         | PList xs \<Rightarrow>
             (if length xs = 2 then min_max_entries ops key xs params
              else AList.update key (py_str ops value) params)
         | _ \<Rightarrow> AList.update key (py_str ops value) params))"

definition check_ranges :: "('f, 't) py_ops \<Rightarrow> ('f, 't) pydict \<Rightarrow> (string \<times> string) list" where
  "check_ranges ops kwargs = foldl (check_value ops) [] kwargs"

text \<open>The \<open>params\<close> dict that \<open>_fetch\<close> builds from its \<open>kwargs\<close> (lines 118-135).\<close>

definition fetch_params :: "('f, 't) py_ops \<Rightarrow> ('f, 't) pydict \<Rightarrow> (string \<times> string) list" where
  "fetch_params ops kwargs = check_ranges ops (map_keywords KEYWORDS kwargs)"

text \<open>
  The name under which the keyword loop (lines 119-123) leaves a key of \<open>kwargs\<close>:
  \<open>KEYWORDS[key]\<close> for a key of the table, the key itself otherwise.
\<close>

definition wire_name :: "string \<Rightarrow> string" where
  "wire_name key = (case map_of KEYWORDS key of Some value \<Rightarrow> value | None \<Rightarrow> key)"

text \<open>
  \<open>urllib.urlencode\<close> of a dict of strings: \<open>quote_plus\<close> of key and value joined by
  \<open>=\<close>, the pairs joined by \<open>&\<close>. \<open>quote_plus\<close> keeps letters, digits and \<open>_.-\<close>,
  turns a space into \<open>+\<close> and any other byte into \<open>%XX\<close>.
\<close>

definition always_safe :: "char \<Rightarrow> bool" where
  "always_safe c \<longleftrightarrow>
     c \<in> set ''ABCDEFGHIJKLMNOPQRSTUVWXYZabcdefghijklmnopqrstuvwxyz0123456789_.-''"

definition quote_plus :: "string \<Rightarrow> string" where
  "quote_plus s =
     concat (map (\<lambda>c. if always_safe c then [c]
                      else if c = CHR '' '' then ''+''
                      else ''%'' @ hex2 ''0123456789ABCDEF'' (of_char c)) s)"

definition urlencode :: "(string \<times> string) list \<Rightarrow> string" where
  "urlencode query = str_join ''&'' (map (\<lambda>(k, v). quote_plus k @ ''='' @ quote_plus v) query)"

text \<open>
  \<open>Client._fetch\<close> (lines 117-145). \<open>urlopen\<close> is the server: the body read from the
  address, or the exception raised. Both branches on \<open>sys.hexversion\<close> open the same
  address; the timeout is part of \<open>urlopen\<close>.
\<close>

definition remoteaddr :: "('f, 't) py_ops \<Rightarrow> string \<Rightarrow> string \<Rightarrow> ('f, 't) pydict \<Rightarrow> string" where
  "remoteaddr ops base_url url kwargs = base_url @ url @ ''?'' @ urlencode (fetch_params ops kwargs)"

definition fetch ::
  "('f, 't) py_ops \<Rightarrow> (string \<Rightarrow> error + string) \<Rightarrow> string \<Rightarrow> string \<Rightarrow> ('f, 't) pydict
     \<Rightarrow> net_call list \<Rightarrow> (error + string) \<times> net_call list" where
  "fetch ops urlopen base_url url kwargs net =
     (urlopen (remoteaddr ops base_url url kwargs),
      net @ [OpenUrl (remoteaddr ops base_url url kwargs)])"

text \<open>
  The items of a tuple or list, and the test of lines 128 and 131: a tuple or a list of
  length 2.
\<close>

fun seq_items :: "('f, 't) pyval \<Rightarrow> ('f, 't) pyval list" where
  "seq_items (PTuple xs) = xs"
| "seq_items (PList xs) = xs"
| "seq_items v = []"

definition is_range :: "('f, 't) pyval \<Rightarrow> bool" where
  "is_range v \<longleftrightarrow> length (seq_items v) = 2"

text \<open>A \<open>params\<close> dict passed back in as keyword arguments: every value is a string.\<close>

definition params_as_kwargs :: "(string \<times> string) list \<Rightarrow> ('f, 't) pydict" where
  "params_as_kwargs params = map (\<lambda>(k, v). (k, PStr v)) params"

text \<open>\<open>Client.testAuth\<close> (lines 99-115).\<close>

definition testAuth ::
  "(request \<Rightarrow> http_outcome) \<Rightarrow> string \<Rightarrow> net_call list \<Rightarrow> (error + bool) \<times> net_call list" where
  "testAuth urlopen base_url net =
     (case HTTP_request urlopen (base_url @ ''/xml/'') ''HEAD'' (Some []) [] net of
        (Inl e, net') \<Rightarrow> (Inl e, net')
      | (Inr (code, msg), net') \<Rightarrow>
          (if code = 200 then (Inr True, net')
           else if code = 401 then (Inr False, net')
           else (Inl (Exception (''Unexpected request status code: '' @ show_nat code)), net')))"

subsection \<open>The mapper clients\<close>

text \<open>
  The methods take their named parameters and a \<open>**kwargs\<close> dict, and begin by storing
  every named parameter in \<open>kwargs\<close> (the loop over \<open>locals()\<close>). A keyword argument with
  the name of a parameter is bound to that parameter, so the names are not keys of
  \<open>kwargs\<close> before the loop.
\<close>

definition store_locals :: "(string \<times> ('f, 't) pyval) list \<Rightarrow> ('f, 't) pydict \<Rightarrow> ('f, 't) pydict" where
  "store_locals named kwargs = foldl (\<lambda>kw (key, value). AList.update key value kw) kwargs named"

text \<open>The address each mapper method fetches (lines 288, 311, 335, 363, 393, 466, 539, 573, 611, 791).\<close>

datatype mapper_method =
    Waveform_getNetworkIds
  | Waveform_getStationIds
  | Waveform_getLocationIds
  | Waveform_getChannelIds
  | Waveform_getLatency
  | Waveform_getWaveform
  | Waveform_getPreview
  | Waveform_getPreviewByIds
  | Station_getList
  | Event_getList

fun mapper_url :: "mapper_method \<Rightarrow> string" where
  "mapper_url Waveform_getNetworkIds = ''/seismology/waveform/getNetworkIds''"
| "mapper_url Waveform_getStationIds = ''/seismology/waveform/getStationIds''"
| "mapper_url Waveform_getLocationIds = ''/seismology/waveform/getLocationIds''"
| "mapper_url Waveform_getChannelIds = ''/seismology/waveform/getChannelIds''"
| "mapper_url Waveform_getLatency = ''/seismology/waveform/getLatency''"
| "mapper_url Waveform_getWaveform = ''/seismology/waveform/getWaveform''"
| "mapper_url Waveform_getPreview = ''/seismology/waveform/getPreview''"
| "mapper_url Waveform_getPreviewByIds = ''/seismology/waveform/getPreview''"
| "mapper_url Station_getList = ''/seismology/station/getList''"
| "mapper_url Event_getList = ''/seismology/event/getList''"

text \<open>\<open>_BaseRESTClient\<close> with the class attributes of its two subclasses (lines 588-589, 769-770).\<close>

record rest_client =
  package :: string
  resourcetype :: string

definition StationMapperClient :: rest_client where
  "StationMapperClient = \<lparr>package = ''seismology'', resourcetype = ''station''\<rparr>"

definition EventMapperClient :: rest_client where
  "EventMapperClient = \<lparr>package = ''seismology'', resourcetype = ''event''\<rparr>"

text \<open>The address of a named resource, relative (lines 207, 224) and absolute (lines 245, 265).\<close>

definition resource_url :: "rest_client \<Rightarrow> string \<Rightarrow> string" where
  "resource_url c resource_name =
     ''/xml/'' @ package c @ ''/'' @ resourcetype c @ ''/'' @ resource_name"

definition resource_address :: "string \<Rightarrow> rest_client \<Rightarrow> string \<Rightarrow> string" where
  "resource_address base_url c resource_name =
     str_join ''/'' [base_url, ''xml'', package c, resourcetype c, resource_name]"

text \<open>\<open>getResource\<close> (lines 188-209): \<open>resource_name\<close> and \<open>format\<close> go into the query too.\<close>

definition getResource ::
  "('f, 't) py_ops \<Rightarrow> (string \<Rightarrow> error + string) \<Rightarrow> string \<Rightarrow> rest_client \<Rightarrow> string \<Rightarrow> ('f, 't) pyval
     \<Rightarrow> ('f, 't) pydict \<Rightarrow> net_call list \<Rightarrow> (error + string) \<times> net_call list" where
  "getResource ops urlopen base_url c resource_name format kwargs net =
     fetch ops urlopen base_url (resource_url c resource_name)
       (store_locals [(''resource_name'', PStr resource_name), (''format'', format)] kwargs) net"

text \<open>\<open>putResource\<close> and \<open>deleteResource\<close> (lines 228-268).\<close>

definition putResource ::
  "(request \<Rightarrow> http_outcome) \<Rightarrow> string \<Rightarrow> rest_client \<Rightarrow> string \<Rightarrow> string option
     \<Rightarrow> (string \<times> string) list \<Rightarrow> net_call list \<Rightarrow> (error + nat \<times> string) \<times> net_call list" where
  "putResource urlopen base_url c resource_name xml_string headers net =
     HTTP_request urlopen (resource_address base_url c resource_name) ''PUT'' xml_string headers net"

definition deleteResource ::
  "(request \<Rightarrow> http_outcome) \<Rightarrow> string \<Rightarrow> rest_client \<Rightarrow> string
     \<Rightarrow> (string \<times> string) list \<Rightarrow> net_call list \<Rightarrow> (error + nat \<times> string) \<times> net_call list" where
  "deleteResource urlopen base_url c resource_name headers net =
     HTTP_request urlopen (resource_address base_url c resource_name) ''DELETE'' (Some []) headers net"

subsection \<open>Waveforms and previews\<close>

text \<open>
  A stream is the list of its traces; \<open>loads\<close> is \<open>pickle.loads\<close>, which gives the stream
  or raises.

  \<open>getPreview\<close> (lines 509-545).
\<close>

definition getPreview ::
  "('f, 't) py_ops \<Rightarrow> (string \<Rightarrow> error + string) \<Rightarrow> (string \<Rightarrow> error + 'tr list) \<Rightarrow> string
     \<Rightarrow> ('f, 't) pyval \<Rightarrow> ('f, 't) pyval \<Rightarrow> ('f, 't) pyval \<Rightarrow> ('f, 't) pyval \<Rightarrow> ('f, 't) pyval \<Rightarrow> ('f, 't) pyval \<Rightarrow> ('f, 't) pyval
     \<Rightarrow> ('f, 't) pydict \<Rightarrow> net_call list \<Rightarrow> (error + 'tr list) \<times> net_call list" where
  "getPreview ops urlopen loads base_url network station location channel starttime endtime
       trace_ids kwargs net =
     (case fetch ops urlopen base_url (mapper_url Waveform_getPreview)
             (store_locals
                [(''network'', network), (''station'', station), (''location'', location),
                 (''channel'', channel), (''starttime'', starttime), (''endtime'', endtime),
                 (''trace_ids'', trace_ids)] kwargs) net of
        (Inl e, net') \<Rightarrow> (Inl e, net')
      | (Inr data, net') \<Rightarrow>
          (if data = [] then (Inl (Exception ''No waveform data available''), net')
           else (loads data, net')))"

text \<open>
  \<open>getPreviewByIds\<close> (lines 549-579). A list of trace ids is joined with commas, which
  raises TypeError when an item is not a string.
\<close>

fun str_items :: "('f, 't) pyval list \<Rightarrow> error + string list" where
  "str_items [] = Inr []"
| "str_items (PStr s # vs) = (case str_items vs of Inl e \<Rightarrow> Inl e | Inr ss \<Rightarrow> Inr (s # ss))"
| "str_items (v # vs) = Inl (TypeError ''sequence item: expected string'')"

definition join_trace_ids :: "('f, 't) pydict \<Rightarrow> error + ('f, 't) pydict" where
  "join_trace_ids kwargs =
     (case map_of kwargs ''trace_ids'' of
        Some (PList ids) \<Rightarrow>
          (case str_items ids of
             Inl e \<Rightarrow> Inl e
           | Inr ss \<Rightarrow> Inr (AList.update ''trace_ids'' (PStr (str_join '','' ss)) kwargs))
      | _ \<Rightarrow> Inr kwargs)"

definition getPreviewByIds ::
  "('f, 't) py_ops \<Rightarrow> (string \<Rightarrow> error + string) \<Rightarrow> (string \<Rightarrow> error + 'tr list) \<Rightarrow> string
     \<Rightarrow> ('f, 't) pyval \<Rightarrow> ('f, 't) pyval \<Rightarrow> ('f, 't) pyval
     \<Rightarrow> ('f, 't) pydict \<Rightarrow> net_call list \<Rightarrow> (error + 'tr list) \<times> net_call list" where
  "getPreviewByIds ops urlopen loads base_url trace_ids starttime endtime kwargs net =
     (case join_trace_ids
             (store_locals
                [(''trace_ids'', trace_ids), (''starttime'', starttime), (''endtime'', endtime)]
                kwargs) of
        Inl e \<Rightarrow> (Inl e, net)
      | Inr kwargs' \<Rightarrow>
          (case fetch ops urlopen base_url (mapper_url Waveform_getPreviewByIds) kwargs' net of
             (Inl e, net') \<Rightarrow> (Inl e, net')
           | (Inr data, net') \<Rightarrow>
               (if data = [] then (Inl (Exception ''No waveform data available''), net')
                else (loads data, net'))))"

text \<open>
  What \<open>getWaveform\<close> uses from outside this class: the table \<open>BAND_CODE\<close> of
  \<open>obspy.core.util\<close>, from the band code (the first letter of a channel code) to the
  nominal sample rate; \<open>stream.trim(starttime, endtime)\<close> of \<open>obspy.core\<close>, which gives the
  trimmed stream or raises; the two lookups \<open>self.client.station.getPAZ\<close> and
  \<open>self.client.station.getCoordinates\<close>, from their keyword arguments and the network
  calls made so far to the dict found, of a type \<open>'m\<close>, and the calls made; and
  \<open>tr.stats[key] = m.copy()\<close> on a trace. A stream is the list of its traces.
\<close>

record ('f, 't, 'tr, 'm) waveform_env =
  BAND_CODE :: "(string \<times> 'f) list"
  stream_trim :: "('f, 't) pyval \<Rightarrow> ('f, 't) pyval \<Rightarrow> 'tr list \<Rightarrow> error + 'tr list"
  station_getPAZ :: "('f, 't) pydict \<Rightarrow> net_call list \<Rightarrow> (error + 'm) \<times> net_call list"
  station_getCoordinates :: "('f, 't) pydict \<Rightarrow> net_call list \<Rightarrow> (error + 'm) \<times> net_call list"
  set_stats :: "string \<Rightarrow> 'm \<Rightarrow> 'tr \<Rightarrow> 'tr"

text \<open>Sequencing of steps that may raise.\<close>

fun then_do :: "error + 'a \<Rightarrow> ('a \<Rightarrow> error + 'b) \<Rightarrow> error + 'b" where
  "then_do (Inl e) f = Inl e"
| "then_do (Inr x) f = f x"

text \<open>\<open>d[key]\<close> on a dict.\<close>

definition getitem :: "('f, 't) pydict \<Rightarrow> string \<Rightarrow> error + ('f, 't) pyval" where
  "getitem d key = (case map_of d key of None \<Rightarrow> Inl (KeyError key) | Some v \<Rightarrow> Inr v)"

text \<open>
  Lines 446-449, "allow time strings in arguments": a \<open>str\<close> under \<open>starttime\<close> or
  \<open>endtime\<close> is replaced by its \<open>UTCDateTime\<close>.
\<close>

definition time_string :: "('f, 't) py_ops \<Rightarrow> string \<Rightarrow> ('f, 't) pydict \<Rightarrow> error + ('f, 't) pydict" where
  "time_string ops time kwargs =
     (case map_of kwargs time of
        None \<Rightarrow> Inl (KeyError time)
      | Some (PStr s) \<Rightarrow> then_do (time_of_str ops s) (\<lambda>t. Inr (AList.update time (PTime t) kwargs))
      | Some v \<Rightarrow> Inr kwargs)"

definition time_strings :: "('f, 't) py_ops \<Rightarrow> ('f, 't) pydict \<Rightarrow> error + ('f, 't) pydict" where
  "time_strings ops kwargs =
     then_do (time_string ops ''starttime'' kwargs) (time_string ops ''endtime'')"

text \<open>
  \<open>v[0]\<close>, \<open>BAND_CODE[band_code]\<close>, and \<open>v - x\<close> and \<open>v + x\<close> for a float \<open>x\<close>: a time stamp
  moves by \<open>x\<close> seconds, a number becomes a float, anything else raises TypeError.
\<close>

fun subscript0 :: "('f, 't) pyval \<Rightarrow> error + ('f, 't) pyval" where
  "subscript0 (PStr (c # cs)) = Inr (PStr [c])"
| "subscript0 (PStr []) = Inl (IndexError ''string index out of range'')"
| "subscript0 (PTuple (x # xs)) = Inr x"
| "subscript0 (PTuple []) = Inl (IndexError ''tuple index out of range'')"
| "subscript0 (PList (x # xs)) = Inr x"
| "subscript0 (PList []) = Inl (IndexError ''list index out of range'')"
| "subscript0 v = Inl (TypeError ''object is unsubscriptable'')"

fun band_rate :: "('f, 't) py_ops \<Rightarrow> (string \<times> 'f) list \<Rightarrow> ('f, 't) pyval \<Rightarrow> error + 'f" where
  "band_rate ops table (PStr k) =
     (case map_of table k of None \<Rightarrow> Inl (KeyError k) | Some rate \<Rightarrow> Inr rate)"
| "band_rate ops table (PList xs) = Inl (TypeError ''unhashable type'')"
| "band_rate ops table v = Inl (KeyError (py_repr ops v))"

fun number_value :: "('f, 't) py_ops \<Rightarrow> ('f, 't) pyval \<Rightarrow> 'f option" where
  "number_value ops (PFloat x) = Some x"
| "number_value ops (PInt i) = Some (float_of_int ops i)"
| "number_value ops (PBool b) = Some (float_of_int ops (if b then 1 else 0))"
| "number_value ops v = None"

definition py_sub :: "('f, 't) py_ops \<Rightarrow> ('f, 't) pyval \<Rightarrow> 'f \<Rightarrow> error + ('f, 't) pyval" where
  "py_sub ops v x =
     (case v of
        PTime t \<Rightarrow> Inr (PTime (time_sub ops t x))
      | _ \<Rightarrow>
          (case number_value ops v of
             Some y \<Rightarrow> Inr (PFloat (float_sub ops y x))
           | None \<Rightarrow> Inl (TypeError ''unsupported operand type(s) for -'')))"

definition py_add :: "('f, 't) py_ops \<Rightarrow> ('f, 't) pyval \<Rightarrow> 'f \<Rightarrow> error + ('f, 't) pyval" where
  "py_add ops v x =
     (case v of
        PTime t \<Rightarrow> Inr (PTime (time_add ops t x))
      | _ \<Rightarrow>
          (case number_value ops v of
             Some y \<Rightarrow> Inr (PFloat (float_add ops y x))
           | None \<Rightarrow> Inl (TypeError ''unsupported operand type(s) for +'')))"

text \<open>\<open>2.0 / BAND_CODE[band_code]\<close>.\<close>

definition two_samples ::
  "('f, 't) py_ops \<Rightarrow> (string \<times> 'f) list \<Rightarrow> ('f, 't) pyval \<Rightarrow> error + 'f" where
  "two_samples ops table band_code =
     then_do (band_rate ops table band_code) (\<lambda>rate.
       case float_div ops (float_lit ops ''2.0'') rate of
         None \<Rightarrow> Inl (Exception ''ZeroDivisionError: float division'')
       | Some x \<Rightarrow> Inr x)"

text \<open>
  Lines 450-464: with a channel the window of \<open>kwargs\<close> is widened by two samples at both
  ends, and the window asked for is kept as \<open>trim_start\<close> and \<open>trim_end\<close>. The result is the
  new \<open>kwargs\<close> and, when a channel is given, the window kept; without a channel the
  method only warns.
\<close>

definition expand_window ::
  "('f, 't) py_ops \<Rightarrow> (string \<times> 'f) list \<Rightarrow> ('f, 't) pyval \<Rightarrow> ('f, 't) pydict
     \<Rightarrow> error + ('f, 't) pydict \<times> (('f, 't) pyval \<times> ('f, 't) pyval) option" where
  "expand_window ops table channel kwargs =
     (if truthy ops channel then
        then_do (getitem kwargs ''channel'') (\<lambda>ch.
        then_do (subscript0 ch) (\<lambda>band_code.
        then_do (getitem kwargs ''starttime'') (\<lambda>trim_start.
        then_do (getitem kwargs ''endtime'') (\<lambda>trim_end.
        then_do (two_samples ops table band_code) (\<lambda>pad_start.
        then_do (py_sub ops trim_start pad_start) (\<lambda>padded_start.
        then_do (two_samples ops table band_code) (\<lambda>pad_end.
        then_do (py_add ops trim_end pad_end) (\<lambda>padded_end.
        Inr (AList.update ''endtime'' padded_end (AList.update ''starttime'' padded_start kwargs),
             Some (trim_start, trim_end))))))))))
      else Inr (kwargs, None))"

text \<open>
  Lines 478-491 and 492-505, the same steps for the PAZ and for the coordinates: the
  lookup at the start time, with \<open>metadata_timecheck\<close> the lookup at the end time and the
  exception when the two differ, then the dict stored in the \<open>stats\<close> of every trace.
  \<open>arguments\<close> are the keyword arguments of the lookup apart from \<open>datetime\<close>.
\<close>

definition attach ::
  "(('f, 't) pydict \<Rightarrow> net_call list \<Rightarrow> (error + 'm) \<times> net_call list) \<Rightarrow> (string \<Rightarrow> 'm \<Rightarrow> 'tr \<Rightarrow> 'tr)
     \<Rightarrow> string \<Rightarrow> string \<Rightarrow> ('f, 't) pydict \<Rightarrow> ('f, 't) pyval \<Rightarrow> ('f, 't) pyval \<Rightarrow> bool
     \<Rightarrow> 'tr list \<Rightarrow> net_call list \<Rightarrow> (error + 'tr list) \<times> net_call list" where
  "attach lookup store key msg arguments starttime endtime timecheck stream net =
     (case lookup (arguments @ [(''datetime'', starttime)]) net of
        (Inl e, net') \<Rightarrow> (Inl e, net')
      | (Inr m, net') \<Rightarrow>
          (if timecheck then
             (case lookup (arguments @ [(''datetime'', endtime)]) net' of
                (Inl e, net'') \<Rightarrow> (Inl e, net'')
              | (Inr m_check, net'') \<Rightarrow>
                  (if m \<noteq> m_check then (Inl (Exception msg), net'')
                   else (Inr (map (store key m) stream), net'')))
           else (Inr (map (store key m) stream), net')))"

definition attach_metadata ::
  "('f, 't) py_ops \<Rightarrow> ('f, 't, 'tr, 'm) waveform_env
     \<Rightarrow> ('f, 't) pyval \<Rightarrow> ('f, 't) pyval \<Rightarrow> ('f, 't) pyval \<Rightarrow> ('f, 't) pyval \<Rightarrow> ('f, 't) pyval \<Rightarrow> ('f, 't) pyval
     \<Rightarrow> ('f, 't) pyval \<Rightarrow> ('f, 't) pyval \<Rightarrow> ('f, 't) pyval
     \<Rightarrow> 'tr list \<Rightarrow> net_call list \<Rightarrow> (error + 'tr list) \<times> net_call list" where
  "attach_metadata ops env network station location channel starttime endtime
       getPAZ getCoordinates metadata_timecheck stream net =
     (case (if truthy ops getPAZ
            then attach (station_getPAZ env) (set_stats env) ''paz''
                   ''PAZ information changing from start time to end time.''
                   [(''network'', network), (''station'', station), (''location'', location),
                    (''channel'', channel)]
                   starttime endtime (truthy ops metadata_timecheck) stream net
            else (Inr stream, net)) of
        (Inl e, net') \<Rightarrow> (Inl e, net')
      | (Inr stream', net') \<Rightarrow>
          (if truthy ops getCoordinates
           then attach (station_getCoordinates env) (set_stats env) ''coordinates''
                  ''Coordinate information changing from start time to end time.''
                  [(''network'', network), (''station'', station), (''location'', location)]
                  starttime endtime (truthy ops metadata_timecheck) stream' net'
           else (Inr stream', net')))"

text \<open>
  \<open>getWaveform\<close> (lines 399-506). \<open>loads\<close> is \<open>pickle.loads\<close>. The stream is trimmed to the
  window kept by \<open>expand_window\<close>, which is there exactly when a channel is given
  (lines 476-477).
\<close>

definition getWaveform ::
  "('f, 't) py_ops \<Rightarrow> (string \<Rightarrow> error + string) \<Rightarrow> (string \<Rightarrow> error + 'tr list)
     \<Rightarrow> ('f, 't, 'tr, 'm) waveform_env
     \<Rightarrow> string \<Rightarrow> ('f, 't) pyval \<Rightarrow> ('f, 't) pyval \<Rightarrow> ('f, 't) pyval \<Rightarrow> ('f, 't) pyval \<Rightarrow> ('f, 't) pyval \<Rightarrow> ('f, 't) pyval
     \<Rightarrow> ('f, 't) pyval \<Rightarrow> ('f, 't) pyval \<Rightarrow> ('f, 't) pyval \<Rightarrow> ('f, 't) pyval
     \<Rightarrow> ('f, 't) pydict \<Rightarrow> net_call list \<Rightarrow> (error + 'tr list) \<times> net_call list" where
  "getWaveform ops urlopen loads env base_url network station location channel
       starttime endtime apply_filter getPAZ getCoordinates metadata_timecheck kwargs net =
     (case then_do
             (time_strings ops
                (store_locals
                   [(''network'', network), (''station'', station), (''location'', location),
                    (''channel'', channel), (''starttime'', starttime), (''endtime'', endtime),
                    (''apply_filter'', apply_filter), (''getPAZ'', getPAZ),
                    (''getCoordinates'', getCoordinates),
                    (''metadata_timecheck'', metadata_timecheck)] kwargs))
             (expand_window ops (BAND_CODE env) channel) of
        Inl e \<Rightarrow> (Inl e, net)
      | Inr (kwargs', window) \<Rightarrow>
          (case fetch ops urlopen base_url (mapper_url Waveform_getWaveform) kwargs' net of
             (Inl e, net') \<Rightarrow> (Inl e, net')
           | (Inr data, net') \<Rightarrow>
               (if data = [] then (Inl (Exception ''No waveform data available''), net')
                else
                  (case loads data of
                     Inl e \<Rightarrow> (Inl e, net')
                   | Inr stream \<Rightarrow>
                       (if length stream = 0
                        then (Inl (Exception ''No waveform data available''), net')
                        else
                          (case (case window of
                                   Some (trim_start, trim_end) \<Rightarrow>
                                     stream_trim env trim_start trim_end stream
                                 | None \<Rightarrow> Inr stream) of
                             Inl e \<Rightarrow> (Inl e, net')
                           | Inr stream' \<Rightarrow>
                               attach_metadata ops env network station location channel
                                 starttime endtime getPAZ getCoordinates metadata_timecheck
                                 stream' net'))))))"

subsection \<open>Decoded XML\<close>

text \<open>
  An element as \<open>lxml\<close> gives it: tag, attributes, text and child elements (an unset text
  is the empty string; tails are left out). \<open>string_value\<close> is the string an XPath
  comparison reads from an element: its text and that of its descendants.
\<close>

datatype xml =
  Element (elem_tag: string) (elem_attrib: "(string \<times> string) list") (elem_text: string)
    (elem_children: "xml list")

fun string_value :: "xml \<Rightarrow> string" where
  "string_value (Element t a txt cs) = txt @ concat (map string_value cs)"

text \<open>An element with a text and nothing else: \<open>SubElement(parent, tag).text = txt\<close>.\<close>

definition leaf :: "string \<Rightarrow> string \<Rightarrow> xml" where
  "leaf t txt = Element t [] txt []"

definition child_elements :: "string \<Rightarrow> xml \<Rightarrow> xml list" where
  "child_elements name e = filter (\<lambda>c. elem_tag c = name) (elem_children e)"

text \<open>
  \<open>lxml.objectify\<close>: \<open>e.name\<close> is the first child with that tag, AttributeError when
  there is none; \<open>e.name[:]\<close> are all the children of \<open>e\<close> with that tag, \<open>e.name[-1]\<close> the
  last of them. \<open>xs[0]\<close> on a list raises IndexError when the list is empty.
\<close>

definition get_child :: "xml \<Rightarrow> string \<Rightarrow> error + xml" where
  "get_child e name =
     (case child_elements name e of
        [] \<Rightarrow> Inl (AttributeError (''no such child: '' @ name))
      | c # cs \<Rightarrow> Inr c)"

definition first_item :: "'a list \<Rightarrow> error + 'a" where
  "first_item xs = (case xs of [] \<Rightarrow> Inl (IndexError ''list index out of range'') | x # _ \<Rightarrow> Inr x)"

subsection \<open>Poles and zeros\<close>

text \<open>
  The three XPath expressions of \<open>getPAZ\<close> (lines 718-735) are built by splicing the
  channel and location codes between single quotes into the text
  \<open>channel_identifier[channel_identifier='C' and location_identifier='L']/following-sibling::T\<close>
  and are evaluated at the \<open>station_control_header\<close>.
\<close>

definition xpath_expr :: "string \<Rightarrow> string \<Rightarrow> string \<Rightarrow> string" where
  "xpath_expr channel location step =
     ''channel_identifier[channel_identifier='' @ [CHR 0x27] @ channel @ [CHR 0x27]
       @ '' and location_identifier='' @ [CHR 0x27] @ location @ [CHR 0x27]
       @ '']/following-sibling::'' @ step"

text \<open>
  A code of printable ASCII characters without a single quote stays, once spliced in, the
  string literal it was meant to be.
\<close>

definition plain_code :: "string \<Rightarrow> bool" where
  "plain_code s \<longleftrightarrow> (\<forall>c \<in> set s. c \<noteq> CHR 0x27 \<and> 32 \<le> (of_char c :: nat) \<and> (of_char c :: nat) < 127)"

text \<open>
  For plain codes \<open>C\<close> and \<open>L\<close> the expression selects the children of the header that
  are \<open>channel_identifier\<close> elements with a \<open>channel_identifier\<close> child of string value
  \<open>C\<close> and a \<open>location_identifier\<close> child of string value \<open>L\<close>; then the later siblings of
  any of them that pass the test \<open>T\<close>, in document order. The later siblings of any match
  are the later siblings of the first match.
\<close>

definition channel_identifier_matches :: "string \<Rightarrow> string \<Rightarrow> xml \<Rightarrow> bool" where
  "channel_identifier_matches channel location n \<longleftrightarrow>
     elem_tag n = ''channel_identifier''
     \<and> (\<exists>c \<in> set (child_elements ''channel_identifier'' n). string_value c = channel)
     \<and> (\<exists>l \<in> set (child_elements ''location_identifier'' n). string_value l = location)"

fun following_siblings :: "(xml \<Rightarrow> bool) \<Rightarrow> xml list \<Rightarrow> xml list" where
  "following_siblings P [] = []"
| "following_siblings P (c # cs) = (if P c then cs else following_siblings P cs)"

text \<open>
  \<open>base_node.xpath(xpath_expr)\<close>. For plain codes the result is the reading above, with
  \<open>test\<close> the meaning of the step \<open>T\<close>. For any other code the spliced text is another
  expression, or none; what \<open>lxml\<close> makes of it is the parameter \<open>xpath\<close>, which gives the
  nodes selected or the exception raised.
\<close>

definition xpath_following_sibling ::
  "(xml \<Rightarrow> string \<Rightarrow> error + xml list) \<Rightarrow> xml \<Rightarrow> string \<Rightarrow> string \<Rightarrow> string \<Rightarrow> (xml \<Rightarrow> bool)
     \<Rightarrow> error + xml list" where
  "xpath_following_sibling xpath base_node channel location step test =
     (if plain_code channel \<and> plain_code location
      then Inr (filter test (following_siblings (channel_identifier_matches channel location)
                               (elem_children base_node)))
      else xpath base_node (xpath_expr channel location step))"

definition is_poles_and_zeros :: "xml \<Rightarrow> bool" where
  "is_poles_and_zeros n \<longleftrightarrow> elem_tag n = ''response_poles_and_zeros''"

definition is_gain_stage :: "string \<Rightarrow> xml \<Rightarrow> bool" where
  "is_gain_stage stage n \<longleftrightarrow>
     elem_tag n = ''channel_sensitivity_gain''
     \<and> (\<exists>s \<in> set (child_elements ''stage_sequence_number'' n). string_value s = stage)"

text \<open>The loop over \<open>['*', '?']\<close> (lines 703-707).\<close>

definition reset_wildcards :: "string \<Rightarrow> string \<Rightarrow> string \<times> string" where
  "reset_wildcards channel location =
     foldl (\<lambda>(ch, loc) t. (if t \<in> set ch then [] else ch, if t \<in> set loc then [] else loc))
       (channel, location) ''*?''"

text \<open>
  Lines 716-740: the poles-and-zeros node, the sensitivity node and the seismometer gain
  node.
\<close>

definition select_nodes ::
  "(xml \<Rightarrow> string \<Rightarrow> error + xml list) \<Rightarrow> xml \<Rightarrow> string \<Rightarrow> string \<Rightarrow> error + xml \<times> xml \<times> xml" where
  "select_nodes xpath base_node channel location =
     (if channel \<noteq> [] \<or> location \<noteq> [] then
        then_do (then_do (xpath_following_sibling xpath base_node channel location
                            ''response_poles_and_zeros'' is_poles_and_zeros) first_item)
          (\<lambda>paz_node.
        then_do (then_do (xpath_following_sibling xpath base_node channel location
                            (''channel_sensitivity_gain[stage_sequence_number='' @ [CHR 0x27] @ ''0''
                               @ [CHR 0x27] @ '']'') (is_gain_stage ''0'')) first_item)
          (\<lambda>sensitivity_node.
        then_do (then_do (xpath_following_sibling xpath base_node channel location
                            (''channel_sensitivity_gain[stage_sequence_number='' @ [CHR 0x27] @ ''1''
                               @ [CHR 0x27] @ '']'') (is_gain_stage ''1'')) first_item)
          (\<lambda>seismometer_gain_node.
        Inr (paz_node, sensitivity_node, seismometer_gain_node))))
      else
        then_do (get_child base_node ''response_poles_and_zeros'')
          (\<lambda>paz_node.
        then_do (get_child base_node ''channel_sensitivity_gain'')
          (\<lambda>seismometer_gain_node.
        Inr (paz_node, last (child_elements ''channel_sensitivity_gain'' base_node),
             seismometer_gain_node))))"

text \<open>
  \<open>pyval\<close> is the typed value \<open>lxml.objectify\<close> reads from a data element, \<open>None\<close> for an
  element that has none. \<open>complex(re, im)\<close> of two objectified elements goes through the
  elements' own number conversion, which is \<open>lxml\<close>'s: it is the parameter \<open>complex_of\<close>,
  which gives the complex number, of a type \<open>'c\<close>, or the exception raised.

  The list comprehensions of lines 746 and 751.
\<close>

fun complex_list :: "(xml \<Rightarrow> xml \<Rightarrow> error + 'c) \<Rightarrow> (xml \<times> xml) list \<Rightarrow> error + 'c list" where
  "complex_list complex_of [] = Inr []"
| "complex_list complex_of (p # ps) =
     then_do (complex_of (fst p) (snd p)) (\<lambda>c.
     then_do (complex_list complex_of ps) (\<lambda>cs.
     Inr (c # cs)))"

definition get_pyval :: "(xml \<Rightarrow> ('f, 't) pyval option) \<Rightarrow> xml \<Rightarrow> error + ('f, 't) pyval" where
  "get_pyval pyval e = (case pyval e of None \<Rightarrow> Inl (AttributeError ''pyval'') | Some v \<Rightarrow> Inr v)"

text \<open>The dict that \<open>getPAZ\<close> returns; \<open>seismometer_gain\<close> is a key only when asked for.\<close>

record ('f, 't, 'c) paz =
  paz_poles :: "'c list"
  paz_zeros :: "'c list"
  paz_gain :: "('f, 't) pyval"
  paz_sensitivity :: "('f, 't) pyval"
  paz_seismometer_gain :: "('f, 't) pyval option"

text \<open>Lines 741-760.\<close>

definition read_paz ::
  "(xml \<Rightarrow> xml \<Rightarrow> error + 'c) \<Rightarrow> (xml \<Rightarrow> ('f, 't) pyval option) \<Rightarrow> bool \<Rightarrow> xml \<times> xml \<times> xml
     \<Rightarrow> error + ('f, 't, 'c) paz" where
  "read_paz complex_of pyval seismometer_gain nodes =
     (case nodes of (paz_node, sensitivity_node, seismometer_gain_node) \<Rightarrow>
        then_do (get_child paz_node ''complex_pole'') (\<lambda>complex_pole.
        then_do (get_child complex_pole ''real_pole'') (\<lambda>_.
        then_do (get_child complex_pole ''imaginary_pole'') (\<lambda>_.
        then_do (complex_list complex_of
                   (zip (child_elements ''real_pole'' complex_pole)
                        (child_elements ''imaginary_pole'' complex_pole))) (\<lambda>poles.
        then_do (get_child paz_node ''complex_zero'') (\<lambda>complex_zero.
        then_do (get_child complex_zero ''real_zero'') (\<lambda>_.
        then_do (get_child complex_zero ''imaginary_zero'') (\<lambda>_.
        then_do (complex_list complex_of
                   (zip (child_elements ''real_zero'' complex_zero)
                        (child_elements ''imaginary_zero'' complex_zero))) (\<lambda>zeros.
        then_do (get_child paz_node ''A0_normalization_factor'') (\<lambda>a0.
        then_do (get_pyval pyval a0) (\<lambda>gain.
        then_do (get_child sensitivity_node ''sensitivity_gain'') (\<lambda>sg.
        then_do (get_pyval pyval sg) (\<lambda>sensitivity.
        if seismometer_gain then
          then_do (get_child seismometer_gain_node ''sensitivity_gain'') (\<lambda>g.
          then_do (get_pyval pyval g) (\<lambda>v.
          Inr \<lparr>paz_poles = poles, paz_zeros = zeros, paz_gain = gain,
               paz_sensitivity = sensitivity, paz_seismometer_gain = Some v\<rparr>))
        else
          Inr \<lparr>paz_poles = poles, paz_zeros = zeros, paz_gain = gain,
               paz_sensitivity = sensitivity, paz_seismometer_gain = None\<rparr>)))))))))))))"

text \<open>
  \<open>_StationMapperClient.getPAZ\<close> (lines 661-760). \<open>station_list\<close> is what \<open>getList\<close>
  returned for the network, station and time; \<open>getXMLResource\<close> fetches and parses the
  named resource. The result \<open>None\<close> is the empty dict of line 701.
\<close>

definition getPAZ ::
  "(xml \<Rightarrow> string \<Rightarrow> error + xml list) \<Rightarrow> (xml \<Rightarrow> xml \<Rightarrow> error + 'c) \<Rightarrow> (xml \<Rightarrow> ('f, 't) pyval option)
     \<Rightarrow> ('f, 't) pydict list \<Rightarrow> (('f, 't) pyval \<Rightarrow> error + xml)
     \<Rightarrow> string \<Rightarrow> string \<Rightarrow> bool \<Rightarrow> error + ('f, 't, 'c) paz option" where
  "getPAZ xpath complex_of pyval station_list getXMLResource location channel seismometer_gain =
     (case station_list of
        [] \<Rightarrow> Inr None
      | xml_doc # _ \<Rightarrow>
          (case reset_wildcards channel location of (channel', location') \<Rightarrow>
             (case map_of xml_doc ''resource_name'' of
                None \<Rightarrow> Inl (KeyError ''resource_name'')
              | Some resource_name \<Rightarrow>
                  then_do (getXMLResource resource_name) (\<lambda>res.
                  then_do (get_child res ''station_control_header'') (\<lambda>base_node.
                  then_do (select_nodes xpath base_node channel' location') (\<lambda>nodes.
                  then_do (read_paz complex_of pyval seismometer_gain nodes) (\<lambda>paz.
                  Inr (Some paz))))))))"

subsection \<open>Events and KML\<close>

text \<open>
  A method called with \<open>**kwargs\<close> only: a parameter the call does not name has its
  default \<open>None\<close>, and the loop over \<open>locals()\<close> stores all of them in \<open>kwargs\<close>.
\<close>

definition with_defaults :: "string list \<Rightarrow> ('f, 't) pydict \<Rightarrow> ('f, 't) pydict" where
  "with_defaults names kwargs =
     foldl (\<lambda>kw name. if name \<in> fst ` set kw then kw else AList.update name PNone kw) kwargs names"

definition event_getList_parameters :: "string list" where
  "event_getList_parameters =
     [''limit'', ''offset'', ''localization_method'', ''account'', ''user'', ''min_datetime'',
      ''max_datetime'', ''first_pick'', ''last_pick'', ''min_latitude'', ''max_latitude'',
      ''min_longitude'', ''max_longitude'', ''min_magnitude'', ''max_magnitude'', ''min_depth'',
      ''max_depth'', ''used_p'', ''min_used_p'', ''max_used_p'', ''used_s'', ''min_used_s'',
      ''max_used_s'', ''document_id'']"

text \<open>
  \<open>node.__dict__\<close> of an objectified element: its children by tag, the first child of each
  tag. A record is the dict of their \<open>pyval\<close>s (lines 793-794).
\<close>

definition node_dict :: "xml \<Rightarrow> (string \<times> xml) list" where
  "node_dict node =
     foldl (\<lambda>d c. if elem_tag c \<in> fst ` set d then d else d @ [(elem_tag c, c)]) []
       (elem_children node)"

fun decode_fields :: "(xml \<Rightarrow> ('f, 't) pyval option) \<Rightarrow> (string \<times> xml) list \<Rightarrow> error + ('f, 't) pydict" where
  "decode_fields pyval [] = Inr []"
| "decode_fields pyval (kv # rest) =
     then_do (get_pyval pyval (snd kv)) (\<lambda>v.
     then_do (decode_fields pyval rest) (\<lambda>fields.
     Inr ((fst kv, v) # fields)))"

fun decode_nodes :: "(xml \<Rightarrow> ('f, 't) pyval option) \<Rightarrow> xml list \<Rightarrow> error + ('f, 't) pydict list" where
  "decode_nodes pyval [] = Inr []"
| "decode_nodes pyval (node # nodes) =
     then_do (decode_fields pyval (node_dict node)) (\<lambda>record.
     then_do (decode_nodes pyval nodes) (\<lambda>records.
     Inr (record # records)))"

text \<open>
  \<open>_EventMapperClient.getList\<close> (lines 772-794), called as \<open>getList(**kwargs)\<close>.
  \<open>fromstring\<close> is \<open>objectify.fromstring\<close>.
\<close>

definition event_getList ::
  "('f, 't) py_ops \<Rightarrow> (string \<Rightarrow> error + string) \<Rightarrow> (string \<Rightarrow> error + xml)
     \<Rightarrow> (xml \<Rightarrow> ('f, 't) pyval option) \<Rightarrow> string \<Rightarrow> ('f, 't) pydict \<Rightarrow> net_call list
     \<Rightarrow> (error + ('f, 't) pydict list) \<times> net_call list" where
  "event_getList ops urlopen fromstring pyval base_url kwargs net =
     (case fetch ops urlopen base_url (mapper_url Event_getList)
             (with_defaults event_getList_parameters kwargs) net of
        (Inl e, net') \<Rightarrow> (Inl e, net')
      | (Inr doc, net') \<Rightarrow>
          (then_do (fromstring doc) (\<lambda>root. decode_nodes pyval (elem_children root)), net'))"

text \<open>The number a \<open>%f\<close> conversion takes.\<close>

fun as_float :: "('f, 't) py_ops \<Rightarrow> ('f, 't) pyval \<Rightarrow> 'f option" where
  "as_float ops (PFloat x) = Some x"
| "as_float ops (PInt i) = Some (float_of_int ops i)"
| "as_float ops (PBool b) = Some (float_of_int ops (if b then 1 else 0))"
| "as_float ops v = None"

definition float_argument :: "('f, 't) py_ops \<Rightarrow> ('f, 't) pyval \<Rightarrow> error + 'f" where
  "float_argument ops v =
     (case as_float ops v of None \<Rightarrow> Inl (TypeError ''float argument required'') | Some x \<Rightarrow> Inr x)"

definition interesting_keys :: "string list" where
  "interesting_keys =
     [''resource_name'', ''localisation_method'', ''account'', ''user'', ''public'', ''datetime'',
      ''longitude'', ''latitude'', ''depth'', ''magnitude'', ''used_p'', ''used_s'']"

text \<open>
  Lines 876-886: the label and the icon size of an event, from its date and the string
  \<open>mag\<close> of its magnitude.
\<close>

definition label_and_icon_size :: "('f, 't) py_ops \<Rightarrow> string \<Rightarrow> string \<Rightarrow> error + string \<times> 'f" where
  "label_and_icon_size ops date mag =
     (if mag \<noteq> [] then
        (case float_of_str ops mag of
           None \<Rightarrow> Inl (ValueError ''could not convert string to float'')
         | Some m \<Rightarrow>
             Inr (date @ '': '' @ float_fmt ops 1 m,
                  (case float_log ops (float_add ops (float_lit ops ''1.5'') m) of
                     Some l \<Rightarrow> float_mul ops (float_lit ops ''1.2'') l
                   | None \<Rightarrow> float_lit ops ''0.1'')))
      else Inr (date, float_lit ops ''0.5''))"

text \<open>The body of the loop over the events (lines 871-907): the placemark of one event.\<close>

definition placemark :: "('f, 't) py_ops \<Rightarrow> bool \<Rightarrow> ('f, 't) pydict \<Rightarrow> error + xml" where
  "placemark ops nolabels event_dict =
     then_do (getitem event_dict ''datetime'') (\<lambda>dt.
     then_do (getitem event_dict ''magnitude'') (\<lambda>mg.
     then_do (label_and_icon_size ops (takeWhile (\<lambda>c. c \<noteq> CHR '' '') (py_str ops dt))
                (py_str ops mg)) (\<lambda>(label, icon_size).
     then_do (getitem event_dict ''longitude'') (\<lambda>lon.
     then_do (getitem event_dict ''latitude'') (\<lambda>lat.
     then_do (float_argument ops lon) (\<lambda>x.
     then_do (float_argument ops lat) (\<lambda>y.
     Inr (Element ''Placemark'' [] []
            [leaf ''name'' (if nolabels then [] else label),
             leaf ''styleUrl'' ''#earthquake'',
             Element ''Style'' [] []
               [Element ''IconStyle'' [] [] [leaf ''scale'' (float_str ops icon_size)],
                Element ''ListStyle'' [] [] [leaf ''maxSnippetLines'' ''5'']],
             Element ''Point'' [] []
               [leaf ''coordinates'' (float_fmt ops 10 x @ '','' @ float_fmt ops 10 y @ '',0'')],
             leaf ''description''
               (concat (map (\<lambda>key. case map_of event_dict key of
                                      None \<Rightarrow> []
                                    | Some v \<Rightarrow> [CHR 0x0A] @ key @ '': '' @ py_str ops v)
                          interesting_keys))]))))))))"

fun placemarks :: "('f, 't) py_ops \<Rightarrow> bool \<Rightarrow> ('f, 't) pydict list \<Rightarrow> error + xml list" where
  "placemarks ops nolabels [] = Inr []"
| "placemarks ops nolabels (event_dict # events) =
     then_do (placemark ops nolabels event_dict) (\<lambda>p.
     then_do (placemarks ops nolabels events) (\<lambda>ps.
     Inr (p # ps)))"

text \<open>
  The document (lines 822-864) around the placemarks. \<open>now\<close> and \<open>today\<close> are
  \<open>str(timestamp)\<close> and \<open>str(timestamp.date())\<close> of the \<open>datetime.now()\<close> of line 819.
\<close>

definition kml_document :: "('f, 't) py_ops \<Rightarrow> string \<Rightarrow> string \<Rightarrow> string \<Rightarrow> ('f, 't) pydict \<Rightarrow> xml list \<Rightarrow> xml" where
  "kml_document ops base_url now today kwargs marks =
     Element ''kml'' [(''xmlns'', ''http://www.opengis.net/kml/2.2'')] []
       [Element ''Document'' [] []
          [leaf ''name'' ''Seishub Event Locations'',
           Element ''Style'' [(''id'', ''earthquake'')] []
             [Element ''IconStyle'' [] []
                [leaf ''scale'' ''0.5'',
                 Element ''Icon'' [] []
                   [leaf ''href'' ''http://maps.google.com/mapfiles/kml/shapes/earthquake.png''],
                 Element ''hotSpot''
                   [(''x'', ''0.5''), (''y'', ''0''), (''xunits'', ''fraction''), (''yunits'', ''fraction'')]
                   [] []],
              Element ''LabelStyle'' [] [] [leaf ''color'' ''ff0000ff'', leaf ''scale'' ''0.8'']],
           Element ''Folder'' [] []
             ([leaf ''name'' (''SeisHub Events ('' @ today @ '')''),
               leaf ''open'' ''1'',
               leaf ''description''
                 (''Fetched from: '' @ base_url @ [CHR 0x0A] @ ''Fetched at: '' @ now
                    @ [CHR 0x0A, CHR 0x0A] @ ''Search options:'' @ [CHR 0x0A]
                    @ str_join [CHR 0x0A] (map (\<lambda>(k, v). str_join ''='' [k, py_str ops v]) kwargs)),
               Element ''Style'' [] []
                 [Element ''ListStyle'' [] []
                    [leaf ''listItemType'' ''check'', leaf ''bgColor'' ''00ffffff'',
                     leaf ''maxSnippetLines'' ''5'']]]
              @ marks)]]"

text \<open>
  \<open>getKML\<close> (lines 804-910). \<open>tostring\<close> is \<open>lxml.etree.tostring\<close> with the options of
  line 910.
\<close>

definition getKML ::
  "('f, 't) py_ops \<Rightarrow> (string \<Rightarrow> error + string) \<Rightarrow> (string \<Rightarrow> error + xml)
     \<Rightarrow> (xml \<Rightarrow> ('f, 't) pyval option) \<Rightarrow> (xml \<Rightarrow> string) \<Rightarrow> string \<Rightarrow> string \<Rightarrow> string
     \<Rightarrow> bool \<Rightarrow> ('f, 't) pydict \<Rightarrow> net_call list \<Rightarrow> (error + string) \<times> net_call list" where
  "getKML ops urlopen fromstring pyval tostring now today base_url nolabels kwargs net =
     (case event_getList ops urlopen fromstring pyval base_url kwargs net of
        (Inl e, net') \<Rightarrow> (Inl e, net')
      | (Inr events, net') \<Rightarrow>
          (then_do (placemarks ops nolabels events) (\<lambda>marks.
             Inr (tostring (kml_document ops base_url now today kwargs marks))),
           net'))"

text \<open>
  \<open>saveKML\<close> (lines 912-935). \<open>files\<close> maps every path that exists to what the file
  holds, so \<open>os.path.lexists(filename)\<close> is \<open>filename \<in> dom files\<close>; \<open>can_write\<close> tells
  whether \<open>open(filename, "wt")\<close> succeeds. \<open>nolabels\<close>, when the call gives it, is
  among the keyword arguments and is bound to the parameter of \<open>getKML\<close>.
\<close>

definition saveKML ::
  "('f, 't) py_ops \<Rightarrow> (string \<Rightarrow> error + string) \<Rightarrow> (string \<Rightarrow> error + xml)
     \<Rightarrow> (xml \<Rightarrow> ('f, 't) pyval option) \<Rightarrow> (xml \<Rightarrow> string) \<Rightarrow> string \<Rightarrow> string \<Rightarrow> string
     \<Rightarrow> (string \<Rightarrow> bool) \<Rightarrow> string \<Rightarrow> bool \<Rightarrow> ('f, 't) pydict
     \<Rightarrow> (string \<rightharpoonup> string) \<Rightarrow> net_call list
     \<Rightarrow> (error + unit) \<times> (string \<rightharpoonup> string) \<times> net_call list" where
  "saveKML ops urlopen fromstring pyval tostring now today base_url can_write filename overwrite
       kwargs files net =
     (if \<not> overwrite \<and> filename \<in> dom files
      then (Inl (OSError (''File '' @ filename @ '' exists and overwrite=False.'')), files, net)
      else
        (case getKML ops urlopen fromstring pyval tostring now today base_url
                (case map_of kwargs ''nolabels'' of None \<Rightarrow> False | Some v \<Rightarrow> truthy ops v)
                (AList.delete ''nolabels'' kwargs) net of
           (Inl e, net') \<Rightarrow> (Inl e, files, net')
         | (Inr kml_string, net') \<Rightarrow>
             (if can_write filename then (Inr (), files(filename \<mapsto> kml_string), net')
              else (Inl (IOError filename), files, net'))))"

subsection \<open>Inputs to run the model on\<close>

text \<open>
  An instance of the operations to run the model on: the numbers with one decimal
  digit, counted in tenths (\<open>50\<close> is \<open>5.0\<close>). It reads and prints such a number, when it is
  not negative, the way Python does; the logarithm is not computed, zero stands for it.
  A time stamp is a number of seconds, counted in tenths too, and prints as that number.
\<close>

definition is_digit :: "char \<Rightarrow> bool" where
  "is_digit c \<longleftrightarrow> c \<in> set ''0123456789''"

definition digits_value :: "string \<Rightarrow> nat" where
  "digits_value s = foldl (\<lambda>n c. 10 * n + (of_char c - 48)) 0 s"

definition tenths_of_str :: "string \<Rightarrow> int option" where
  "tenths_of_str s =
     (if takeWhile is_digit s = [] then None
      else
        (case dropWhile is_digit s of
           [] \<Rightarrow> Some (int (10 * digits_value s))
         | [dot, d] \<Rightarrow>
             if dot = CHR ''.'' \<and> is_digit d
             then Some (int (10 * digits_value (takeWhile is_digit s) + digits_value [d]))
             else None
         | _ \<Rightarrow> None))"

definition tenths_fmt :: "nat \<Rightarrow> int \<Rightarrow> string" where
  "tenths_fmt n x =
     (if x < 0 then ''-'' else []) @ show_nat (nat \<bar>x\<bar> div 10) @ ''.''
       @ show_nat (nat \<bar>x\<bar> mod 10) @ replicate (n - 1) (CHR ''0'')"

definition tenths :: "(int, int) py_ops" where
  "tenths =
     \<lparr>float_nonzero = (\<lambda>x. x \<noteq> 0),
      float_str = tenths_fmt 1,
      float_repr = tenths_fmt 1,
      float_of_str = tenths_of_str,
      float_of_int = (\<lambda>i. 10 * i),
      float_fmt = tenths_fmt,
      float_lit = (\<lambda>s. case tenths_of_str s of Some x \<Rightarrow> x | None \<Rightarrow> 0),
      float_add = (\<lambda>x y. x + y),
      float_sub = (\<lambda>x y. x - y),
      float_mul = (\<lambda>x y. (x * y) div 10),
      float_div = (\<lambda>x y. if y = 0 then None else Some ((10 * x) div y)),
      float_log = (\<lambda>x. if x \<le> 0 then None else Some 0),
      time_str = tenths_fmt 1,
      time_repr = tenths_fmt 1,
      time_of_str = (\<lambda>s. case tenths_of_str s of Some t \<Rightarrow> Inr t | None \<Rightarrow> Inl (ValueError s)),
      time_sub = (\<lambda>t x. t - x),
      time_add = (\<lambda>t x. t + x)\<rparr>"


definition tenths_pyval :: "xml \<Rightarrow> (int, int) pyval option" where
  "tenths_pyval e =
     (if elem_children e \<noteq> [] then None
      else if elem_text e \<noteq> [] \<and> dropWhile is_digit (elem_text e) = []
      then Some (PInt (int (digits_value (elem_text e))))
      else
        (case tenths_of_str (elem_text e) of
           Some x \<Rightarrow> Some (PFloat x)
         | None \<Rightarrow> Some (PStr (elem_text e))))"



text \<open>An event list of one event, as the server sends it decoded, to run the renderer on.\<close>

definition event_list :: xml where
  "event_list =
     Element ''ResultSet'' [] []
       [Element ''Item'' [] []
          [leaf ''resource_name'' ''ev1'', leaf ''datetime'' ''2020-01-01 12:30:00'',
           leaf ''magnitude'' ''5.0'', leaf ''longitude'' ''11.5'', leaf ''latitude'' ''48.1'']]"






section \<open>Properties\<close>

subsection \<open>The low-level request method\<close>

lemma accepted_methods_eq:
  "set HTTP_ACCEPTED_METHODS = {''PUT'', ''POST'', ''HEAD'', ''GET'', ''DELETE''}"
  by (auto simp: HTTP_ACCEPTED_METHODS_def HTTP_ACCEPTED_DATA_METHODS_def
      HTTP_ACCEPTED_NODATA_METHODS_def)

lemma data_nodata_disjoint:
  "set HTTP_ACCEPTED_DATA_METHODS \<inter> set HTTP_ACCEPTED_NODATA_METHODS = {}"
  by (simp add: HTTP_ACCEPTED_DATA_METHODS_def HTTP_ACCEPTED_NODATA_METHODS_def)

text \<open>
  C8. A method outside PUT, POST, HEAD, GET, DELETE is refused with a ValueError;
  PUT or POST with an empty or absent body and HEAD, GET or DELETE with a non-empty body
  are refused with a TypeError; in all three cases the list of network calls is returned
  as it was passed in, so the refusal comes before any network call.
\<close>

theorem HTTP_request_fails_fast:
  "(method \<notin> {''PUT'', ''POST'', ''HEAD'', ''GET'', ''DELETE''} \<longrightarrow>
      HTTP_request urlopen url method xml_string headers net
        = (Inl (ValueError (''Method must be one of '' @ accepted_methods_str)), net))
   \<and> (method \<in> {''PUT'', ''POST''} \<and> \<not> body_given xml_string \<longrightarrow>
      HTTP_request urlopen url method xml_string headers net
        = (Inl (TypeError (''Missing data for '' @ method @ '' request.'')), net))
   \<and> (method \<in> {''HEAD'', ''GET'', ''DELETE''} \<and> body_given xml_string \<longrightarrow>
      HTTP_request urlopen url method xml_string headers net
        = (Inl (TypeError (''Unexpected data for '' @ method @ '' request.'')), net))"
  unfolding HTTP_request_def HTTP_ACCEPTED_METHODS_def HTTP_ACCEPTED_DATA_METHODS_def
    HTTP_ACCEPTED_NODATA_METHODS_def
  by auto

theorem HTTP_request_fails_fast_witness:
  "HTTP_request (\<lambda>r. Response 200 ''OK'') ''http://h/xml/a'' ''PATCH'' (Some ''<a/>'') [] []
      = (Inl (ValueError (''Method must be one of '' @ accepted_methods_str)), [])
   \<and> HTTP_request (\<lambda>r. Response 200 ''OK'') ''http://h/xml/a'' ''PUT'' None [] []
      = (Inl (TypeError ''Missing data for PUT request.''), [])
   \<and> HTTP_request (\<lambda>r. Response 200 ''OK'') ''http://h/xml/a'' ''POST'' (Some '''') [] []
      = (Inl (TypeError ''Missing data for POST request.''), [])
   \<and> HTTP_request (\<lambda>r. Response 200 ''OK'') ''http://h/xml/a'' ''DELETE'' (Some ''<a/>'') [] []
      = (Inl (TypeError ''Unexpected data for DELETE request.''), [])"
  using HTTP_request_fails_fast [of "''PATCH''" "\<lambda>r. Response 200 ''OK''" "''http://h/xml/a''" "Some ''<a/>''" "[]" "[]"]
    HTTP_request_fails_fast [of "''PUT''" "\<lambda>r. Response 200 ''OK''" "''http://h/xml/a''" None "[]" "[]"]
    HTTP_request_fails_fast [of "''POST''" "\<lambda>r. Response 200 ''OK''" "''http://h/xml/a''" "Some []" "[]" "[]"]
    HTTP_request_fails_fast [of "''DELETE''" "\<lambda>r. Response 200 ''OK''" "''http://h/xml/a''" "Some ''<a/>''" "[]" "[]"]
  by simp

subsection \<open>Parameter normalisation\<close>

text \<open>The keyword loop, for any table whose keys and values are distinct and apart.\<close>

lemma map_keywords_other:
  "k \<notin> fst ` set table \<Longrightarrow> k \<notin> snd ` set table \<Longrightarrow> map_of (map_keywords table kw) k = map_of kw k"
  by (induction table arbitrary: kw)
     (auto simp: AList.delete_conv' AList.update_conv' split: option.splits)

lemma map_keywords_absent:
  "map_of kw c = None \<Longrightarrow> c \<notin> snd ` set table \<Longrightarrow> map_of (map_keywords table kw) c = None"
  by (induction table arbitrary: kw)
     (auto simp: AList.delete_conv' AList.update_conv' split: option.splits)

lemma map_keywords_key:
  "c \<in> fst ` set table \<Longrightarrow> fst ` set table \<inter> snd ` set table = {}
     \<Longrightarrow> map_of (map_keywords table kw) c = None"
proof (induction table arbitrary: kw)
  case Nil
  then show ?case by simp
next
  case (Cons p table)
  obtain key val where p: "p = (key, val)" by (cases p)
  let ?kw = "case map_of kw key of Some v \<Rightarrow> AList.delete key (AList.update val v kw) | None \<Rightarrow> kw"
  have disj: "fst ` set table \<inter> snd ` set table = {}"
    using Cons.prems(2) by auto
  show ?case
  proof (cases "c = key")
    case True
    have "map_of ?kw c = None"
      using True by (auto simp: AList.delete_conv' split: option.splits)
    moreover have "c \<notin> snd ` set table"
      using Cons.prems p by auto
    ultimately show ?thesis
      using p by (simp add: map_keywords_absent)
  next
    case False
    then have "c \<in> fst ` set table" using Cons.prems(1) p by auto
    then show ?thesis using Cons.IH [OF _ disj] p by simp
  qed
qed

lemma map_keywords_value:
  "(c, d) \<in> set table \<Longrightarrow> distinct (map fst table) \<Longrightarrow> distinct (map snd table)
     \<Longrightarrow> fst ` set table \<inter> snd ` set table = {}
     \<Longrightarrow> map_of (map_keywords table kw) d
         = (case map_of kw c of Some v \<Rightarrow> Some v | None \<Rightarrow> map_of kw d)"
proof (induction table arbitrary: kw)
  case Nil
  then show ?case by simp
next
  case (Cons p table)
  obtain key val where p: "p = (key, val)" by (cases p)
  let ?kw = "case map_of kw key of Some v \<Rightarrow> AList.delete key (AList.update val v kw) | None \<Rightarrow> kw"
  have disj: "fst ` set table \<inter> snd ` set table = {}"
    using Cons.prems(4) by auto
  have dk: "distinct (map fst table)" "key \<notin> fst ` set table"
    and dv: "distinct (map snd table)" "val \<notin> snd ` set table"
    using Cons.prems(2,3) p by simp_all
  have kv: "key \<notin> snd ` set table" "val \<notin> fst ` set table" "key \<noteq> val"
    using Cons.prems(4) p by auto
  show ?case
  proof (cases "(c, d) = p")
    case True
    then have eq: "key = c" "val = d" using p by auto
    have "map_of (map_keywords table ?kw) d = map_of ?kw d"
      using kv(2) dv(2) eq by (simp add: map_keywords_other)
    moreover have "map_of ?kw d = (case map_of kw c of Some v \<Rightarrow> Some v | None \<Rightarrow> map_of kw d)"
      using eq kv(3) by (auto simp: AList.delete_conv' AList.update_conv' split: option.splits)
    ultimately show ?thesis using p by simp
  next
    case False
    then have mem: "(c, d) \<in> set table" using Cons.prems(1) by auto
    then have cf: "c \<in> fst ` set table" and ds: "d \<in> snd ` set table"
      by (force simp: image_iff)+
    have ne: "c \<noteq> key" "d \<noteq> val" "c \<noteq> val" "d \<noteq> key"
      using cf ds dk(2) dv(2) kv(1,2) by auto
    have same: "map_of ?kw c = map_of kw c" "map_of ?kw d = map_of kw d"
      using ne by (auto simp: AList.delete_conv' AList.update_conv' split: option.splits)
    have "map_of (map_keywords table ?kw) d
            = (case map_of ?kw c of Some v \<Rightarrow> Some v | None \<Rightarrow> map_of ?kw d)"
      by (rule Cons.IH [OF mem dk(1) dv(1) disj])
    then show ?thesis using p same by (simp split: option.splits)
  qed
qed

lemma map_keywords_distinct:
  "distinct (map fst kw) \<Longrightarrow> distinct (map fst (map_keywords table kw))"
  by (induction table arbitrary: kw)
     (auto simp: AList.distinct_delete AList.distinct_update split: option.splits)

lemma map_keywords_id:
  "fst ` set table \<inter> fst ` set kw = {} \<Longrightarrow> map_keywords table kw = kw"
proof (induction table arbitrary: kw)
  case Nil
  then show ?case by simp
next
  case (Cons p table)
  obtain key val where p: "p = (key, val)" by (cases p)
  have "key \<notin> fst ` set kw" using Cons.prems p by auto
  then have "map_of kw key = None" by (simp add: map_of_eq_None_iff)
  moreover have "fst ` set table \<inter> fst ` set kw = {}" using Cons.prems by auto
  ultimately show ?case using Cons.IH p by simp
qed

text \<open>
  The order in which the table is run through does not matter, so the result does not
  depend on the iteration order of the dict \<open>KEYWORDS\<close>.
\<close>

lemma map_keywords_order:
  assumes "set table' = set table"
    and "distinct (map fst table)" "distinct (map snd table)"
      "fst ` set table \<inter> snd ` set table = {}"
    and "distinct (map fst table')" "distinct (map snd table')"
  shows "map_of (map_keywords table' kw) = map_of (map_keywords table kw)"
proof
  fix k
  have disj': "fst ` set table' \<inter> snd ` set table' = {}"
    using assms(1,4) by simp
  consider (key) "k \<in> fst ` set table" | (val) "k \<in> snd ` set table"
    | (other) "k \<notin> fst ` set table" "k \<notin> snd ` set table"
    by blast
  then show "map_of (map_keywords table' kw) k = map_of (map_keywords table kw) k"
  proof cases
    case key
    then show ?thesis
      using assms(1,4) disj' by (simp add: map_keywords_key)
  next
    case val
    then obtain c where c: "(c, k) \<in> set table" by force
    then have c': "(c, k) \<in> set table'" using assms(1) by simp
    show ?thesis
      using map_keywords_value [OF c assms(2,3,4), of kw]
        map_keywords_value [OF c' assms(5,6) disj', of kw]
      by simp
  next
    case other
    then show ?thesis
      using assms(1) by (simp add: map_keywords_other)
  qed
qed

lemma KEYWORDS_table:
  "distinct (map fst KEYWORDS)" "distinct (map snd KEYWORDS)"
  "fst ` set KEYWORDS \<inter> snd ` set KEYWORDS = {}"
  by (simp_all add: KEYWORDS_def)

lemma DEPRECATED_KEYWORDS_swap: "DEPRECATED_KEYWORDS = map (\<lambda>(c, d). (d, c)) KEYWORDS"
  by (simp add: DEPRECATED_KEYWORDS_def KEYWORDS_def)

lemma map_of_check_value:
  "map_of (check_value ops params (k, v)) j =
     (if \<not> truthy ops v then map_of params j
      else if is_range v
      then (if j = ''max_'' @ k then Some (py_str ops (seq_items v ! 1))
            else if j = ''min_'' @ k then Some (py_str ops (seq_items v ! 0))
            else map_of params j)
      else if j = k then Some (py_str ops v) else map_of params j)"
  by (cases v) (auto simp: is_range_def min_max_entries_def AList.update_conv')

lemma keys_check_value:
  "fst ` set (check_value ops params (k, v)) \<subseteq> fst ` set params \<union> {k, ''min_'' @ k, ''max_'' @ k}"
  by (cases v) (auto simp: min_max_entries_def AList.dom_update)

lemma distinct_check_value:
  "distinct (map fst params) \<Longrightarrow> distinct (map fst (check_value ops params (k, v)))"
  by (cases v) (auto simp: min_max_entries_def AList.distinct_update)

lemma keys_foldl_check_value:
  "j \<in> fst ` set (foldl (check_value ops) acc kw) \<Longrightarrow>
     j \<in> fst ` set acc \<or> (\<exists>k \<in> fst ` set kw. j = k \<or> j = ''min_'' @ k \<or> j = ''max_'' @ k)"
proof (induction kw arbitrary: acc)
  case Nil
  then show ?case by simp
next
  case (Cons p kw)
  obtain k v where p: "p = (k, v)" by (cases p)
  from Cons.prems have "j \<in> fst ` set (foldl (check_value ops) (check_value ops acc (k, v)) kw)"
    using p by (simp del: check_value.simps)
  from Cons.IH [OF this] show ?case
    using keys_check_value [of ops acc k v] p by auto
qed

lemma distinct_foldl_check_value:
  "distinct (map fst acc) \<Longrightarrow> distinct (map fst (foldl (check_value ops) acc kw))"
proof (induction kw arbitrary: acc)
  case Nil
  then show ?case by simp
next
  case (Cons p kw)
  then show ?case by (cases p) (simp add: distinct_check_value del: check_value.simps)
qed

lemma foldl_check_value_plain:
  "distinct (map fst kw) \<Longrightarrow>
   (\<forall>(k', v') \<in> set kw. truthy ops v' \<and> is_range v' \<longrightarrow> j \<noteq> ''min_'' @ k' \<and> j \<noteq> ''max_'' @ k') \<Longrightarrow>
   map_of (foldl (check_value ops) acc kw) j =
     (case map_of kw j of
        None \<Rightarrow> map_of acc j
      | Some v \<Rightarrow> if truthy ops v \<and> \<not> is_range v then Some (py_str ops v) else map_of acc j)"
proof (induction kw arbitrary: acc)
  case Nil
  then show ?case by simp
next
  case (Cons p kw)
  obtain k v where p: "p = (k, v)" by (cases p)
  have d: "distinct (map fst kw)" and knot: "k \<notin> fst ` set kw"
    using Cons.prems(1) p by auto
  have r: "\<forall>(k', v') \<in> set kw. truthy ops v' \<and> is_range v' \<longrightarrow> j \<noteq> ''min_'' @ k' \<and> j \<noteq> ''max_'' @ k'"
    using Cons.prems(2) by auto
  have here: "truthy ops v \<and> is_range v \<longrightarrow> j \<noteq> ''min_'' @ k \<and> j \<noteq> ''max_'' @ k"
    using Cons.prems(2) p by auto
  note IH = Cons.IH [OF d r, of "check_value ops acc (k, v)"]
  show ?case
  proof (cases "j = k")
    case True
    then have "map_of kw j = None" using knot by (simp add: map_of_eq_None_iff)
    then show ?thesis using IH p True here by (simp add: map_of_check_value del: check_value.simps)
  next
    case False
    have "map_of (check_value ops acc (k, v)) j = map_of acc j"
      using False here by (simp add: map_of_check_value del: check_value.simps)
    then show ?thesis using IH p False
      by (simp del: check_value.simps split: option.splits)
  qed
qed

lemma keyword_not_prefixed:
  "c \<in> fst ` set KEYWORDS \<union> snd ` set KEYWORDS \<Longrightarrow> c \<noteq> ''min_'' @ x \<and> c \<noteq> ''max_'' @ x"
  by (auto simp: KEYWORDS_def)

lemma fetch_params_no_keyword:
  assumes "c \<in> fst ` set KEYWORDS"
  shows "map_of (fetch_params ops kwargs) c = None"
proof -
  let ?kw = "map_keywords KEYWORDS kwargs"
  have "map_of ?kw c = None"
    using assms KEYWORDS_table(3) by (rule map_keywords_key)
  then have absent: "c \<notin> fst ` set ?kw" by (simp add: map_of_eq_None_iff)
  have "c \<notin> fst ` set (foldl (check_value ops) [] ?kw)"
  proof
    assume "c \<in> fst ` set (foldl (check_value ops) [] ?kw)"
    from keys_foldl_check_value [OF this]
    obtain k where "k \<in> fst ` set ?kw" "c = k \<or> c = ''min_'' @ k \<or> c = ''max_'' @ k"
      by auto
    then show False using absent keyword_not_prefixed [of c k] assms by auto
  qed
  then show ?thesis
    by (simp add: fetch_params_def check_ranges_def map_of_eq_None_iff)
qed

lemma distinct_fetch_params: "distinct (map fst (fetch_params ops kwargs))"
  by (simp add: fetch_params_def check_ranges_def distinct_foldl_check_value)

lemma map_of_params_as_kwargs:
  "map_of (params_as_kwargs params) k = map_option PStr (map_of params k)"
  by (induction params) (auto simp: params_as_kwargs_def)

lemma keys_params_as_kwargs: "fst ` set (params_as_kwargs params) = fst ` set params"
  by (force simp: params_as_kwargs_def image_iff)

lemma wire_name_keyword: "k \<in> fst ` set KEYWORDS \<Longrightarrow> (k, wire_name k) \<in> set KEYWORDS"
proof -
  assume "k \<in> fst ` set KEYWORDS"
  then obtain d where "map_of KEYWORDS k = Some d"
    by (cases "map_of KEYWORDS k") (auto simp: map_of_eq_None_iff)
  then show ?thesis by (simp add: wire_name_def map_of_SomeD)
qed

lemma wire_name_other: "k \<notin> fst ` set KEYWORDS \<Longrightarrow> wire_name k = k"
  by (simp add: wire_name_def map_of_eq_None_iff [THEN iffD2])

lemma wire_name_not_keyword: "wire_name k \<notin> fst ` set KEYWORDS"
proof (cases "k \<in> fst ` set KEYWORDS")
  case True
  then have "wire_name k \<in> snd ` set KEYWORDS"
    using wire_name_keyword [of k] by (force simp: image_iff)
  then show ?thesis using KEYWORDS_table(3) by blast
next
  case False
  then show ?thesis by (simp add: wire_name_other)
qed

lemma map_keywords_wire_name:
  assumes "map_of kw k = Some v"
    and "\<forall>c. (c, k) \<in> set KEYWORDS \<longrightarrow> map_of kw c = None"
  shows "map_of (map_keywords KEYWORDS kw) (wire_name k) = Some v"
proof (cases "k \<in> fst ` set KEYWORDS")
  case True
  then have "(k, wire_name k) \<in> set KEYWORDS" by (rule wire_name_keyword)
  from map_keywords_value [OF this KEYWORDS_table, of kw] show ?thesis
    using assms(1) by simp
next
  case False
  then have w: "wire_name k = k" by (rule wire_name_other)
  show ?thesis
  proof (cases "k \<in> snd ` set KEYWORDS")
    case True
    then obtain c where c: "(c, k) \<in> set KEYWORDS" by force
    from map_keywords_value [OF c KEYWORDS_table, of kw] show ?thesis
      using assms c w by simp
  next
    case other: False
    show ?thesis using False other assms(1) w by (simp add: map_keywords_other)
  qed
qed

lemma map_keywords_source:
  assumes "map_of (map_keywords KEYWORDS kw) j' = Some v"
  shows "\<exists>j. map_of kw j = Some v \<and> wire_name j = j'"
proof -
  consider (key) "j' \<in> fst ` set KEYWORDS" | (val) "j' \<notin> fst ` set KEYWORDS" "j' \<in> snd ` set KEYWORDS"
    | (other) "j' \<notin> fst ` set KEYWORDS" "j' \<notin> snd ` set KEYWORDS"
    by blast
  then show ?thesis
  proof cases
    case key
    then show ?thesis
      using assms map_keywords_key [OF key KEYWORDS_table(3), of kw] by simp
  next
    case val
    then obtain c where c: "(c, j') \<in> set KEYWORDS" by force
    then have cf: "c \<in> fst ` set KEYWORDS" by (force simp: image_iff)
    have "map_of KEYWORDS c = Some j'"
      using c KEYWORDS_table(1) by simp
    then have wc: "wire_name c = j'" by (simp add: wire_name_def)
    have eq: "map_of (map_keywords KEYWORDS kw) j'
                = (case map_of kw c of Some v \<Rightarrow> Some v | None \<Rightarrow> map_of kw j')"
      using c KEYWORDS_table by (rule map_keywords_value)
    show ?thesis
    proof (cases "map_of kw c")
      case None
      then have "map_of kw j' = Some v" using eq assms by simp
      then show ?thesis using wire_name_other [OF val(1)] by blast
    next
      case (Some u)
      then have "u = v" using eq assms by simp
      then show ?thesis using Some wc by blast
    qed
  next
    case other
    then have "map_of kw j' = Some v"
      using assms by (simp add: map_keywords_other)
    then show ?thesis using wire_name_other [OF other(1)] by blast
  qed
qed

lemma map_keywords_singleton:
  "fst ` set table \<inter> snd ` set table = {} \<Longrightarrow>
   map_keywords table [(k, v)] = [(case map_of table k of Some d \<Rightarrow> d | None \<Rightarrow> k, v)]"
proof (induction table)
  case Nil
  then show ?case by simp
next
  case (Cons p table)
  obtain key val where p: "p = (key, val)" by (cases p)
  have disj: "fst ` set table \<inter> snd ` set table = {}"
    using Cons.prems by auto
  show ?case
  proof (cases "k = key")
    case True
    have "key \<noteq> val" "val \<notin> fst ` set table"
      using Cons.prems p by auto
    then have "map_keywords table [(val, v)] = [(val, v)]"
      by (intro map_keywords_id) auto
    then show ?thesis using p True \<open>key \<noteq> val\<close> by (simp add: AList.delete_eq)
  next
    case False
    then show ?thesis using Cons.IH [OF disj] p by simp
  qed
qed

lemma map_keywords_single: "map_keywords KEYWORDS [(k, v)] = [(wire_name k, v)]"
  unfolding wire_name_def by (rule map_keywords_singleton) (rule KEYWORDS_table(3))

lemma foldl_check_value_min_max:
  assumes "distinct (map fst kw)" and "map_of kw k = Some v"
    and "truthy ops v" and "is_range v"
    and "j = ''min_'' @ k \<and> s = py_str ops (seq_items v ! 0)
       \<or> j = ''max_'' @ k \<and> s = py_str ops (seq_items v ! 1)"
    and "\<forall>u. map_of kw j = Some u \<longrightarrow> \<not> truthy ops u \<or> is_range u"
  shows "map_of (foldl (check_value ops) acc kw) j = Some s"
  using assms(1,2,6)
proof (induction kw arbitrary: acc)
  case Nil
  then show ?case by simp
next
  case (Cons p kw)
  obtain k' v' where p: "p = (k', v')" by (cases p)
  have d: "distinct (map fst kw)" and fresh: "k' \<notin> fst ` set kw"
    using Cons.prems(1) p by auto
  have jk: "j \<noteq> k"
    using assms(5) by auto
  have rest: "\<forall>u. map_of kw j = Some u \<longrightarrow> \<not> truthy ops u \<or> is_range u"
  proof (cases "k' = j")
    case True
    then have "map_of kw j = None" using fresh by (simp add: map_of_eq_None_iff)
    then show ?thesis by simp
  next
    case False
    then show ?thesis using Cons.prems(3) p by simp
  qed
  show ?case
  proof (cases "k' = k")
    case True
    then have v: "v' = v" using Cons.prems(2) p by simp
    have k: "k \<notin> fst ` set kw" using fresh True by simp
    have nok: "(k, b) \<notin> set kw" for b using k by force
    have others: "\<forall>(k'', v'') \<in> set kw. truthy ops v'' \<and> is_range v''
        \<longrightarrow> j \<noteq> ''min_'' @ k'' \<and> j \<noteq> ''max_'' @ k''"
      using nok assms(5) by auto
    have "map_of (foldl (check_value ops) (check_value ops acc (k, v)) kw) j
            = map_of (check_value ops acc (k, v)) j"
      using foldl_check_value_plain [OF d others, of "check_value ops acc (k, v)"] rest
      by (auto split: option.splits)
    moreover have "map_of (check_value ops acc (k, v)) j = Some s"
      using assms(3,4,5) by (auto simp: map_of_check_value simp del: check_value.simps)
    ultimately show ?thesis
      using p True v by (simp del: check_value.simps)
  next
    case False
    then have "map_of kw k = Some v" using Cons.prems(2) p by simp
    from Cons.IH [OF d this rest, of "check_value ops acc (k', v')"]
    show ?thesis using p by (simp del: check_value.simps)
  qed
qed


text \<open>
  C1, as the code has it. \<open>_fetch\<close> maps the other way round: its table \<open>KEYWORDS\<close> takes
  each canonical name to the name the server knows, which is the deprecated one. For
  every pair \<open>(k, c)\<close> of \<open>DEPRECATED_KEYWORDS\<close> the final \<open>params\<close> never has the canonical
  key \<open>c\<close>; and when a non-empty value that is not a 2-element range reaches \<open>_fetch\<close>
  under \<open>c\<close>, or under \<open>k\<close> with no \<open>c\<close> beside it, \<open>params\<close> has it, stringified, under the
  deprecated key \<open>k\<close>.
\<close>

theorem fetch_params_wire_names:
  assumes "(k, c) \<in> set DEPRECATED_KEYWORDS"
  shows "map_of (fetch_params ops kwargs) c = None
    \<and> (distinct (map fst kwargs)
        \<and> (map_of kwargs c = Some v \<or> (map_of kwargs c = None \<and> map_of kwargs k = Some v))
        \<and> truthy ops v \<and> \<not> is_range v
       \<longrightarrow> map_of (fetch_params ops kwargs) k = Some (py_str ops v))"
proof -
  have ck: "(c, k) \<in> set KEYWORDS"
    using assms by (auto simp: DEPRECATED_KEYWORDS_swap)
  then have c: "c \<in> fst ` set KEYWORDS" and k: "k \<in> snd ` set KEYWORDS"
    by (force simp: image_iff)+
  have first: "map_of (fetch_params ops kwargs) c = None"
    using c by (rule fetch_params_no_keyword)
  have second: "map_of (fetch_params ops kwargs) k = Some (py_str ops v)"
    if d: "distinct (map fst kwargs)"
      and s: "map_of kwargs c = Some v \<or> (map_of kwargs c = None \<and> map_of kwargs k = Some v)"
      and t: "truthy ops v" and r: "\<not> is_range v"
  proof -
    let ?kw = "map_keywords KEYWORDS kwargs"
    have "map_of ?kw k = (case map_of kwargs c of Some v \<Rightarrow> Some v | None \<Rightarrow> map_of kwargs k)"
      using ck KEYWORDS_table by (rule map_keywords_value)
    then have kv: "map_of ?kw k = Some v" using s by auto
    have "map_of (foldl (check_value ops) [] ?kw) k =
            (case map_of ?kw k of None \<Rightarrow> map_of [] k
             | Some v \<Rightarrow> if truthy ops v \<and> \<not> is_range v then Some (py_str ops v) else map_of [] k)"
      using keyword_not_prefixed [of k] k
      by (intro foldl_check_value_plain map_keywords_distinct d) auto
    then show ?thesis using kv t r by (simp add: fetch_params_def check_ranges_def)
  qed
  show ?thesis using first second by blast
qed

theorem fetch_params_wire_names_witness:
  "(''network_id'', ''network'') \<in> set DEPRECATED_KEYWORDS
   \<and> map_of (fetch_params tenths [(''network'', PStr ''BW''), (''station'', PStr ''MANZ'')]) ''network'' = None
   \<and> map_of (fetch_params tenths [(''network'', PStr ''BW''), (''station'', PStr ''MANZ'')]) ''network_id''
        = Some ''BW''"
proof -
  have mem: "(''network_id'', ''network'') \<in> set DEPRECATED_KEYWORDS"
    by (simp add: DEPRECATED_KEYWORDS_def)
  show ?thesis
    using mem fetch_params_wire_names [OF mem, of tenths
        "[(''network'', PStr ''BW''), (''station'', PStr ''MANZ'')]" "PStr ''BW''"]
    by (simp add: is_range_def)
qed

text \<open>
  C1 as stated fails: a call that supplies \<open>network_id\<close> ends, whether the name reaches
  \<open>_fetch\<close> as it is or renamed to \<open>network\<close> on the way, with \<open>params\<close> holding the
  deprecated key \<open>network_id\<close> and no canonical key \<open>network\<close>.
\<close>

theorem fetch_params_wire_names_counterexample:
  "(''network_id'', ''network'') \<in> set DEPRECATED_KEYWORDS
   \<and> fetch_params tenths [(''network_id'', PStr ''BW'')] = [(''network_id'', ''BW'')]
   \<and> fetch_params tenths [(''network'', PStr ''BW'')] = [(''network_id'', ''BW'')]"
  by (simp add: DEPRECATED_KEYWORDS_def fetch_params_def check_ranges_def KEYWORDS_def)

text \<open>
  C5, as the code has it. Let \<open>k\<close> be a key whose value is a tuple or list \<open>(a, b)\<close>, and
  \<open>k'\<close> the name under which \<open>_fetch\<close> sends \<open>k\<close>: \<open>KEYWORDS[k]\<close> for the six names of the
  keyword table, \<open>k\<close> otherwise. The mapping \<open>{k: (a, b)}\<close> normalises to exactly the two
  entries \<open>min_k'\<close> with \<open>str(a)\<close> and \<open>max_k'\<close> with \<open>str(b)\<close>. In a mapping with other keys,
  where \<open>k\<close> is not a deprecated name given together with its canonical name: \<open>min_k'\<close>
  holds \<open>str(a)\<close> unless the mapping has, under the key \<open>min_k'\<close> itself, a non-empty
  value that is not a range; likewise \<open>max_k'\<close> and \<open>str(b)\<close>; and there is no entry named
  \<open>k'\<close> or \<open>k\<close> unless \<open>k'\<close> is the \<open>min_\<close> or \<open>max_\<close> name of a key with a non-empty range.
\<close>

theorem fetch_params_range:
  assumes "value = PTuple [a, b] \<or> value = PList [a, b]"
  shows "fetch_params ops [(k, value)]
           = [(''min_'' @ wire_name k, py_str ops a), (''max_'' @ wire_name k, py_str ops b)]
    \<and> (distinct (map fst kwargs) \<and> map_of kwargs k = Some value
         \<and> (\<forall>c. (c, k) \<in> set KEYWORDS \<longrightarrow> map_of kwargs c = None)
       \<longrightarrow> ((\<forall>u. map_of kwargs (''min_'' @ wire_name k) = Some u \<longrightarrow> \<not> truthy ops u \<or> is_range u)
              \<longrightarrow> map_of (fetch_params ops kwargs) (''min_'' @ wire_name k) = Some (py_str ops a))
         \<and> ((\<forall>u. map_of kwargs (''max_'' @ wire_name k) = Some u \<longrightarrow> \<not> truthy ops u \<or> is_range u)
              \<longrightarrow> map_of (fetch_params ops kwargs) (''max_'' @ wire_name k) = Some (py_str ops b))
         \<and> ((\<forall>(j, u) \<in> set kwargs. truthy ops u \<and> is_range u \<longrightarrow>
                 wire_name k \<noteq> ''min_'' @ wire_name j \<and> wire_name k \<noteq> ''max_'' @ wire_name j)
              \<longrightarrow> map_of (fetch_params ops kwargs) (wire_name k) = None
                \<and> map_of (fetch_params ops kwargs) k = None))"
proof -
  let ?k = "wire_name k"
  have val: "truthy ops value" "is_range value" "seq_items value ! 0 = a"
    "seq_items value ! Suc 0 = b"
    using assms by (auto simp: is_range_def)
  have step: "check_value ops params (j, value)
           = AList.update (''max_'' @ j) (py_str ops b)
               (AList.update (''min_'' @ j) (py_str ops a) params)" for params j
    using assms by (auto simp: min_max_entries_def)
  have single: "fetch_params ops [(k, value)]
           = [(''min_'' @ ?k, py_str ops a), (''max_'' @ ?k, py_str ops b)]"
    by (simp add: fetch_params_def check_ranges_def map_keywords_single step del: check_value.simps)
  have among: "((\<forall>u. map_of kwargs (''min_'' @ ?k) = Some u \<longrightarrow> \<not> truthy ops u \<or> is_range u)
              \<longrightarrow> map_of (fetch_params ops kwargs) (''min_'' @ ?k) = Some (py_str ops a))
         \<and> ((\<forall>u. map_of kwargs (''max_'' @ ?k) = Some u \<longrightarrow> \<not> truthy ops u \<or> is_range u)
              \<longrightarrow> map_of (fetch_params ops kwargs) (''max_'' @ ?k) = Some (py_str ops b))
         \<and> ((\<forall>(j, u) \<in> set kwargs. truthy ops u \<and> is_range u \<longrightarrow>
                 ?k \<noteq> ''min_'' @ wire_name j \<and> ?k \<noteq> ''max_'' @ wire_name j)
              \<longrightarrow> map_of (fetch_params ops kwargs) ?k = None
                \<and> map_of (fetch_params ops kwargs) k = None)"
    if d: "distinct (map fst kwargs)" and v: "map_of kwargs k = Some value"
      and twin: "\<forall>c. (c, k) \<in> set KEYWORDS \<longrightarrow> map_of kwargs c = None"
  proof -
    let ?kw = "map_keywords KEYWORDS kwargs"
    have d': "distinct (map fst ?kw)" using d by (rule map_keywords_distinct)
    have v': "map_of ?kw ?k = Some value" using v twin by (rule map_keywords_wire_name)
    have pre: "map_of ?kw (p @ ?k) = map_of kwargs (p @ ?k)" if "p = ''min_'' \<or> p = ''max_''" for p
      using that keyword_not_prefixed [of "p @ ?k" ?k]
      by (intro map_keywords_other) auto
    have lo: "map_of (fetch_params ops kwargs) (''min_'' @ ?k) = Some (py_str ops a)"
      if "\<forall>u. map_of kwargs (''min_'' @ ?k) = Some u \<longrightarrow> \<not> truthy ops u \<or> is_range u"
    proof -
      have "\<forall>u. map_of ?kw (''min_'' @ ?k) = Some u \<longrightarrow> \<not> truthy ops u \<or> is_range u"
        using that pre [of "''min_''"] by simp
      from foldl_check_value_min_max [OF d' v' val(1,2) _ this, of "py_str ops a" "[]"]
      show ?thesis by (simp add: fetch_params_def check_ranges_def val(3))
    qed
    have hi: "map_of (fetch_params ops kwargs) (''max_'' @ ?k) = Some (py_str ops b)"
      if "\<forall>u. map_of kwargs (''max_'' @ ?k) = Some u \<longrightarrow> \<not> truthy ops u \<or> is_range u"
    proof -
      have "\<forall>u. map_of ?kw (''max_'' @ ?k) = Some u \<longrightarrow> \<not> truthy ops u \<or> is_range u"
        using that pre [of "''max_''"] by simp
      from foldl_check_value_min_max [OF d' v' val(1,2) _ this, of "py_str ops b" "[]"]
      show ?thesis by (simp add: fetch_params_def check_ranges_def val(4))
    qed
    have own: "map_of (fetch_params ops kwargs) ?k = None \<and> map_of (fetch_params ops kwargs) k = None"
      if h: "\<forall>(j, u) \<in> set kwargs. truthy ops u \<and> is_range u \<longrightarrow>
                 ?k \<noteq> ''min_'' @ wire_name j \<and> ?k \<noteq> ''max_'' @ wire_name j"
    proof -
      have "\<forall>(j', u) \<in> set ?kw. truthy ops u \<and> is_range u \<longrightarrow> ?k \<noteq> ''min_'' @ j' \<and> ?k \<noteq> ''max_'' @ j'"
      proof (clarify)
        fix j' u
        assume m: "(j', u) \<in> set ?kw" and t: "truthy ops u" and r: "is_range u"
        have "map_of ?kw j' = Some u" using m d' by simp
        then obtain j where j: "map_of kwargs j = Some u" "wire_name j = j'"
          using map_keywords_source by blast
        have "(j, u) \<in> set kwargs" using j(1) by (rule map_of_SomeD)
        then show "?k \<noteq> ''min_'' @ j' \<and> ?k \<noteq> ''max_'' @ j'"
          using h t r j(2) by auto
      qed
      from foldl_check_value_plain [OF d' this, of "[]"]
      have first: "map_of (fetch_params ops kwargs) ?k = None"
        using v' val(2) by (simp add: fetch_params_def check_ranges_def)
      have "map_of (fetch_params ops kwargs) k = None"
      proof (cases "k \<in> fst ` set KEYWORDS")
        case True
        then show ?thesis by (rule fetch_params_no_keyword)
      next
        case False
        then show ?thesis using first by (simp add: wire_name_other)
      qed
      then show ?thesis using first by simp
    qed
    show ?thesis using lo hi own by blast
  qed
  show ?thesis using single among by blast
qed

theorem fetch_params_range_witness:
  "fetch_params tenths [(''starttime'', PTuple [PStr ''2010-01-01'', PStr ''2010-02-01''])]
      = [(''min_start_datetime'', ''2010-01-01''), (''max_start_datetime'', ''2010-02-01'')]
   \<and> wire_name ''datetime'' = ''datetime''
   \<and> map_of (fetch_params tenths
        [(''limit'', PInt 20), (''min_datetime'', PNone), (''max_datetime'', PNone),
         (''datetime'', PList [PStr ''2010-01-01'', PStr ''2010-02-01''])])
        ''min_datetime'' = Some ''2010-01-01''
   \<and> map_of (fetch_params tenths
        [(''limit'', PInt 20), (''min_datetime'', PNone), (''max_datetime'', PNone),
         (''datetime'', PList [PStr ''2010-01-01'', PStr ''2010-02-01''])])
        ''max_datetime'' = Some ''2010-02-01''
   \<and> map_of (fetch_params tenths
        [(''limit'', PInt 20), (''min_datetime'', PNone), (''max_datetime'', PNone),
         (''datetime'', PList [PStr ''2010-01-01'', PStr ''2010-02-01''])])
        ''datetime'' = None"
proof -
  have w: "wire_name ''starttime'' = ''start_datetime''" "wire_name ''datetime'' = ''datetime''"
    "wire_name ''limit'' = ''limit''" "wire_name ''min_datetime'' = ''min_datetime''"
    "wire_name ''max_datetime'' = ''max_datetime''"
    by (simp_all add: wire_name_def KEYWORDS_def)
  have t: "PTuple [PStr ''2010-01-01'', PStr ''2010-02-01'']
             = PTuple [PStr ''2010-01-01'', PStr ''2010-02-01'']
         \<or> PTuple [PStr ''2010-01-01'', PStr ''2010-02-01'']
             = PList [PStr ''2010-01-01'', PStr ''2010-02-01'' :: (int, int) pyval]"
    by simp
  have l: "PList [PStr ''2010-01-01'', PStr ''2010-02-01'']
             = PTuple [PStr ''2010-01-01'', PStr ''2010-02-01'' :: (int, int) pyval]
         \<or> PList [PStr ''2010-01-01'', PStr ''2010-02-01'']
             = PList [PStr ''2010-01-01'', PStr ''2010-02-01'' :: (int, int) pyval]"
    by simp
  have twin: "\<forall>c. (c, ''datetime'') \<notin> set KEYWORDS"
    by (simp add: KEYWORDS_def)
  show ?thesis
    using fetch_params_range [OF t, of tenths "''starttime''" "[]"]
      fetch_params_range [OF l, of tenths "''datetime''"
        "[(''limit'', PInt 20), (''min_datetime'', PNone), (''max_datetime'', PNone),
          (''datetime'', PList [PStr ''2010-01-01'', PStr ''2010-02-01''])]"]
      twin
    by (simp add: w is_range_def)
qed

text \<open>
  C5 as stated fails twice. The range given as \<open>starttime\<close> is sent as
  \<open>min_start_datetime\<close> and \<open>max_start_datetime\<close>: there is no \<open>min_starttime\<close>. And in a
  call that gives \<open>datetime\<close> as a range together with a \<open>min_datetime\<close> of its own, the
  two write the same entry and the one the dict yields last wins: \<open>min_datetime\<close> holds
  \<open>str(a)\<close> in one order and the explicit value in the other.
\<close>

theorem fetch_params_range_counterexample:
  "fetch_params tenths [(''starttime'', PTuple [PStr ''2010-01-01'', PStr ''2010-02-01''])]
      = [(''min_start_datetime'', ''2010-01-01''), (''max_start_datetime'', ''2010-02-01'')]
   \<and> map_of (fetch_params tenths [(''starttime'', PTuple [PStr ''2010-01-01'', PStr ''2010-02-01''])])
        ''min_starttime'' = None
   \<and> map_of (fetch_params tenths
        [(''datetime'', PTuple [PStr ''2010-01-01'', PStr ''2010-02-01'']),
         (''min_datetime'', PStr ''2009-06-01'')]) ''min_datetime'' = Some ''2009-06-01''
   \<and> map_of (fetch_params tenths
        [(''min_datetime'', PStr ''2009-06-01''),
         (''datetime'', PTuple [PStr ''2010-01-01'', PStr ''2010-02-01''])]) ''min_datetime''
        = Some ''2010-01-01''"
  by (simp add: fetch_params_def check_ranges_def KEYWORDS_def min_max_entries_def)

text \<open>
  C6, as the code has it. Normalising the output of a normalisation again, in any order
  of its entries, drops the entries whose value is the empty string and keeps every other
  entry as it is; so the second normalisation changes nothing when the output of the
  first has no empty value.
\<close>

theorem fetch_params_twice:
  assumes "distinct (map fst ys)"
    and "map_of ys = map_of (params_as_kwargs (fetch_params ops m))"
  shows "(\<forall>j. map_of (fetch_params ops ys) j =
            (case map_of (fetch_params ops m) j of
               None \<Rightarrow> None
             | Some s \<Rightarrow> if s = [] then None else Some s))
    \<and> ((\<forall>(k, s) \<in> set (fetch_params ops m). s \<noteq> []) \<longrightarrow>
          map_of (fetch_params ops ys) = map_of (fetch_params ops m))"
proof -
  let ?out = "fetch_params ops m"
  have ys: "map_of ys k = map_option PStr (map_of ?out k)" for k
    using assms(2) by (simp add: map_of_params_as_kwargs)
  have keys: "fst ` set ys = fst ` set ?out"
    using arg_cong [OF assms(2), of dom]
    by (simp add: dom_map_of_conv_image_fst keys_params_as_kwargs)
  have "fst ` set KEYWORDS \<inter> fst ` set ys = {}"
  proof -
    have "c \<notin> fst ` set ?out" if "c \<in> fst ` set KEYWORDS" for c
      using fetch_params_no_keyword [OF that, of ops m] by (simp add: map_of_eq_None_iff)
    then show ?thesis using keys by auto
  qed
  then have id: "map_keywords KEYWORDS ys = ys" by (rule map_keywords_id)
  have str: "\<exists>s. v = PStr s" if "(k, v) \<in> set ys" for k v
  proof -
    have "map_of ys k = Some v" using that assms(1) by simp
    then show ?thesis using ys [of k] by auto
  qed
  have norange: "\<forall>(k', v') \<in> set ys. truthy ops v' \<and> is_range v' \<longrightarrow> j \<noteq> ''min_'' @ k' \<and> j \<noteq> ''max_'' @ k'" for j
    using str by (fastforce simp: is_range_def)
  have main: "map_of (fetch_params ops ys) j =
            (case map_of ?out j of None \<Rightarrow> None | Some s \<Rightarrow> if s = [] then None else Some s)" for j
  proof -
    have "map_of (foldl (check_value ops) [] ys) j =
            (case map_of ys j of None \<Rightarrow> map_of [] j
             | Some v \<Rightarrow> if truthy ops v \<and> \<not> is_range v then Some (py_str ops v) else map_of [] j)"
      using assms(1) norange by (rule foldl_check_value_plain)
    then show ?thesis
      using ys [of j] by (auto simp: fetch_params_def check_ranges_def id is_range_def split: option.splits)
  qed
  have "map_of (fetch_params ops ys) = map_of ?out" if ne: "\<forall>(k, s) \<in> set ?out. s \<noteq> []"
  proof
    fix j
    show "map_of (fetch_params ops ys) j = map_of ?out j"
    proof (cases "map_of ?out j")
      case None
      then show ?thesis using main [of j] by simp
    next
      case (Some s)
      then have "(j, s) \<in> set ?out" by (rule map_of_SomeD)
      then have "s \<noteq> []" using ne by auto
      then show ?thesis using main [of j] Some by simp
    qed
  qed
  then show ?thesis using main by blast
qed

theorem fetch_params_twice_witness:
  "distinct (map fst [(''max_datetime'', PStr ''2010-02-01''), (''network_id'', PStr ''BW''),
                      (''min_datetime'', PStr ''2010-01-01'')])
   \<and> fetch_params tenths
        [(''network'', PStr ''BW''), (''datetime'', PTuple [PStr ''2010-01-01'', PStr ''2010-02-01''])]
      = [(''min_datetime'', ''2010-01-01''), (''max_datetime'', ''2010-02-01''), (''network_id'', ''BW'')]
   \<and> map_of (fetch_params tenths
        [(''max_datetime'', PStr ''2010-02-01''), (''network_id'', PStr ''BW''),
         (''min_datetime'', PStr ''2010-01-01'')])
      = map_of (fetch_params tenths
        [(''network'', PStr ''BW''), (''datetime'', PTuple [PStr ''2010-01-01'', PStr ''2010-02-01''])])"
proof -
  let ?m = "[(''network'', PStr ''BW''), (''datetime'', PTuple [PStr ''2010-01-01'', PStr ''2010-02-01''])]
              :: (int, int) pydict"
  let ?ys = "[(''max_datetime'', PStr ''2010-02-01''), (''network_id'', PStr ''BW''),
              (''min_datetime'', PStr ''2010-01-01'')] :: (int, int) pydict"
  have out: "fetch_params tenths ?m
      = [(''min_datetime'', ''2010-01-01''), (''max_datetime'', ''2010-02-01''), (''network_id'', ''BW'')]"
    by (simp add: fetch_params_def check_ranges_def KEYWORDS_def min_max_entries_def)
  have d: "distinct (map fst ?ys)" by simp
  have same: "map_of ?ys = map_of (params_as_kwargs (fetch_params tenths ?m) :: (int, int) pydict)"
    unfolding out by (rule ext) (simp add: params_as_kwargs_def)
  show ?thesis
    using d out fetch_params_twice [OF d same] by simp
qed

text \<open>
  C6 as stated fails: a range whose lower bound is the empty string gives an entry
  \<open>min_datetime\<close> with an empty value, and the second normalisation drops it.
\<close>

theorem fetch_params_twice_counterexample:
  "fetch_params tenths [(''datetime'', PTuple [PStr [], PStr ''2010-02-01''])]
      = [(''min_datetime'', []), (''max_datetime'', ''2010-02-01'')]
   \<and> fetch_params tenths
        (params_as_kwargs (fetch_params tenths [(''datetime'', PTuple [PStr [], PStr ''2010-02-01''])]))
      = [(''max_datetime'', ''2010-02-01'')]"
  by (simp add: fetch_params_def check_ranges_def KEYWORDS_def min_max_entries_def
      params_as_kwargs_def)

subsection \<open>Request addresses\<close>

lemma fetch_opens:
  "snd (fetch ops urlopen base_url url kwargs net) = net @ [OpenUrl (remoteaddr ops base_url url kwargs)]"
  by (simp add: fetch_def)

lemma mapper_url_shape:
  "\<exists>rt name. rt \<in> {''waveform'', ''station'', ''event''} \<and> CHR ''/'' \<notin> set name
      \<and> mapper_url m = ''/seismology/'' @ rt @ ''/'' @ name"
proof -
  have ex: "\<exists>rt name. rt \<in> {''waveform'', ''station'', ''event''} \<and> CHR ''/'' \<notin> set name
      \<and> u = ''/seismology/'' @ rt @ ''/'' @ name"
    if "rt \<in> {''waveform'', ''station'', ''event''}" "CHR ''/'' \<notin> set name"
      "u = ''/seismology/'' @ rt @ ''/'' @ name" for u rt name
    using that by blast
  show ?thesis
  proof (cases m)
    case Waveform_getNetworkIds
    then show ?thesis by (intro ex [of "''waveform''" "''getNetworkIds''"]) simp_all
  next
    case Waveform_getStationIds
    then show ?thesis by (intro ex [of "''waveform''" "''getStationIds''"]) simp_all
  next
    case Waveform_getLocationIds
    then show ?thesis by (intro ex [of "''waveform''" "''getLocationIds''"]) simp_all
  next
    case Waveform_getChannelIds
    then show ?thesis by (intro ex [of "''waveform''" "''getChannelIds''"]) simp_all
  next
    case Waveform_getLatency
    then show ?thesis by (intro ex [of "''waveform''" "''getLatency''"]) simp_all
  next
    case Waveform_getWaveform
    then show ?thesis by (intro ex [of "''waveform''" "''getWaveform''"]) simp_all
  next
    case Waveform_getPreview
    then show ?thesis by (intro ex [of "''waveform''" "''getPreview''"]) simp_all
  next
    case Waveform_getPreviewByIds
    then show ?thesis by (intro ex [of "''waveform''" "''getPreview''"]) simp_all
  next
    case Station_getList
    then show ?thesis by (intro ex [of "''station''" "''getList''"]) simp_all
  next
    case Event_getList
    then show ?thesis by (intro ex [of "''event''" "''getList''"]) simp_all
  qed
qed

lemma mapper_url_not_xml: "take 5 (mapper_url m) \<noteq> ''/xml/''"
  by (cases m) simp_all

text \<open>
  C4, as the code has it. The address a mapper method fetches is
  \<open>{base_url}/seismology/{resourcetype}/{operation}?{query}\<close>, with no \<open>/xml\<close> before the
  package; the addresses with \<open>/xml\<close> are those of the named resources:
  \<open>{base_url}/xml/{package}/{resourcetype}/{resource_name}\<close>, followed by the query for
  \<open>getResource\<close> and \<open>getXMLResource\<close> and by nothing for \<open>putResource\<close> and
  \<open>deleteResource\<close>.
\<close>

theorem request_addresses:
  "(\<exists>rt name. rt \<in> {''waveform'', ''station'', ''event''} \<and> CHR ''/'' \<notin> set name
      \<and> remoteaddr ops base_url (mapper_url m) kwargs
            = base_url @ ''/seismology/'' @ rt @ ''/'' @ name @ ''?'' @ urlencode (fetch_params ops kwargs))
   \<and> take 5 (mapper_url m) \<noteq> ''/xml/''
   \<and> remoteaddr ops base_url (resource_url c resource_name) kwargs
        = base_url @ ''/xml/'' @ package c @ ''/'' @ resourcetype c @ ''/'' @ resource_name
            @ ''?'' @ urlencode (fetch_params ops kwargs)
   \<and> resource_address base_url c resource_name
        = base_url @ ''/xml/'' @ package c @ ''/'' @ resourcetype c @ ''/'' @ resource_name"
proof -
  obtain rt name where rt: "rt \<in> {''waveform'', ''station'', ''event''}" "CHR ''/'' \<notin> set name"
    and url: "mapper_url m = ''/seismology/'' @ rt @ ''/'' @ name"
    using mapper_url_shape [of m] by blast
  have "remoteaddr ops base_url (mapper_url m) kwargs
          = base_url @ ''/seismology/'' @ rt @ ''/'' @ name @ ''?'' @ urlencode (fetch_params ops kwargs)"
    by (simp add: remoteaddr_def url)
  with rt have first: "\<exists>rt name. rt \<in> {''waveform'', ''station'', ''event''} \<and> CHR ''/'' \<notin> set name
      \<and> remoteaddr ops base_url (mapper_url m) kwargs
            = base_url @ ''/seismology/'' @ rt @ ''/'' @ name @ ''?'' @ urlencode (fetch_params ops kwargs)"
    by blast
  show ?thesis
    using first mapper_url_not_xml [of m]
    by (simp add: remoteaddr_def resource_url_def resource_address_def)
qed

theorem request_addresses_witness:
  "remoteaddr tenths ''http://localhost:8080'' (mapper_url Station_getList) [(''network'', PStr ''BW'')]
      = ''http://localhost:8080/seismology/station/getList?network_id=BW''
   \<and> remoteaddr tenths ''http://localhost:8080'' (resource_url StationMapperClient ''dataless.seed.BW_MANZ.xml'') []
      = ''http://localhost:8080/xml/seismology/station/dataless.seed.BW_MANZ.xml?''
   \<and> resource_address ''http://localhost:8080'' EventMapperClient ''ev1''
      = ''http://localhost:8080/xml/seismology/event/ev1''"
  using request_addresses [of tenths "''http://localhost:8080''" Station_getList
      "[(''network'', PStr ''BW'')]" StationMapperClient "''dataless.seed.BW_MANZ.xml''"]
    request_addresses [of tenths "''http://localhost:8080''" Station_getList
      "[]" StationMapperClient "''dataless.seed.BW_MANZ.xml''"]
    request_addresses [of tenths "''http://localhost:8080''" Station_getList
      "[]" EventMapperClient "''ev1''"]
  by (simp add: remoteaddr_def fetch_params_def check_ranges_def KEYWORDS_def urlencode_def
      quote_plus_def always_safe_def StationMapperClient_def EventMapperClient_def)

text \<open>
  C4 as stated fails: the waveform request of the module's own example goes to
  \<open>/seismology/waveform/getWaveform\<close>, not to \<open>/xml/seismology/waveform/getWaveform\<close>.
\<close>

theorem request_addresses_counterexample:
  "remoteaddr tenths ''http://localhost:8080'' (mapper_url Waveform_getWaveform)
      [(''network'', PStr ''BW''), (''station'', PStr ''RTPI'')]
      = ''http://localhost:8080/seismology/waveform/getWaveform?network_id=BW&station_id=RTPI''
   \<and> take (length ''http://localhost:8080/xml/'')
        (remoteaddr tenths ''http://localhost:8080'' (mapper_url Waveform_getWaveform)
          [(''network'', PStr ''BW''), (''station'', PStr ''RTPI'')])
      \<noteq> ''http://localhost:8080/xml/''"
  by (simp add: remoteaddr_def fetch_params_def check_ranges_def KEYWORDS_def urlencode_def
      quote_plus_def always_safe_def)

subsection \<open>Empty results\<close>

text \<open>What the three methods share: an empty body raises.\<close>

lemma getPreview_empty_body:
  "\<forall>a. urlopen a = Inr [] \<Longrightarrow>
   fst (getPreview ops urlopen loads base_url network station location channel starttime endtime
          trace_ids kwargs net) = Inl (Exception ''No waveform data available'')"
  by (simp add: getPreview_def fetch_def)

lemma getPreviewByIds_empty_body:
  "\<forall>a. urlopen a = Inr [] \<Longrightarrow> join_trace_ids (store_locals
        [(''trace_ids'', trace_ids), (''starttime'', starttime), (''endtime'', endtime)] kwargs) = Inr kw \<Longrightarrow>
   fst (getPreviewByIds ops urlopen loads base_url trace_ids starttime endtime kwargs net)
     = Inl (Exception ''No waveform data available'')"
  by (simp add: getPreviewByIds_def fetch_def)

lemma getWaveform_empty:
  assumes "then_do (time_strings ops (store_locals
                [(''network'', network), (''station'', station), (''location'', location),
                 (''channel'', channel), (''starttime'', starttime), (''endtime'', endtime),
                 (''apply_filter'', apply_filter), (''getPAZ'', paz_flag),
                 (''getCoordinates'', coordinates_flag),
                 (''metadata_timecheck'', metadata_timecheck)] kwargs))
             (expand_window ops (BAND_CODE env) channel) = Inr (kw, window)"
    and "urlopen (remoteaddr ops base_url (mapper_url Waveform_getWaveform) kw) = Inr data"
    and "data = [] \<or> loads data = Inr []"
  shows "fst (getWaveform ops urlopen loads env base_url network station location channel
            starttime endtime apply_filter paz_flag coordinates_flag metadata_timecheck kwargs net)
          = Inl (Exception ''No waveform data available'')"
  using assms by (auto simp: getWaveform_def fetch_def)

text \<open>
  C3 holds for \<open>getWaveform\<close> and, for the empty body, for the two preview methods. It
  fails for a decoded stream with no traces in \<open>getPreview\<close> and \<open>getPreviewByIds\<close>: they
  return what \<open>pickle.loads\<close> gives without the length test that \<open>getWaveform\<close> makes.
  Here the server answers a preview request with a body that decodes to the empty stream,
  and both methods return the empty stream.
\<close>

theorem preview_returns_empty_stream:
  "getPreview tenths (\<lambda>a. Inr ''(lp0.'') (\<lambda>d. Inr ([] :: nat list)) ''http://localhost:8080''
      (PStr ''BW'') (PStr ''MANZ'') PNone PNone PNone PNone PNone [] []
     = (Inr [], [OpenUrl ''http://localhost:8080/seismology/waveform/getPreview?network_id=BW&station_id=MANZ''])
   \<and> getPreviewByIds tenths (\<lambda>a. Inr ''(lp0.'') (\<lambda>d. Inr ([] :: nat list)) ''http://localhost:8080''
      (PList [PStr ''BW.MANZ..EHE'']) PNone PNone [] []
     = (Inr [], [OpenUrl ''http://localhost:8080/seismology/waveform/getPreview?trace_ids=BW.MANZ..EHE''])"
  by (simp add: getPreview_def getPreviewByIds_def join_trace_ids_def fetch_def remoteaddr_def
      store_locals_def fetch_params_def check_ranges_def KEYWORDS_def urlencode_def
      quote_plus_def always_safe_def)

subsection \<open>The window of a waveform request\<close>














subsection \<open>Poles and zeros\<close>




lemma following_siblings_split:
  "following_siblings P cs = drop (Suc (length (takeWhile (\<lambda>c. \<not> P c) cs))) cs"
  by (induction cs) auto










subsection \<open>KML\<close>









lemma placemark_no_key:
  "map_of event_dict ''datetime'' = Some dt \<Longrightarrow> map_of event_dict ''magnitude'' = None \<Longrightarrow>
   placemark ops nolabels event_dict = Inl (KeyError ''magnitude'')"
  by (simp add: placemark_def getitem_def)





text \<open>
  C10. With \<open>overwrite\<close> false and the file there, \<open>saveKML\<close> raises OSError and returns
  the files and the list of network calls as they were: nothing was fetched, rendered or
  written. Otherwise, when \<open>getKML\<close> returns the KML string and the file can be opened
  for writing, the file holds that string afterwards.
\<close>

theorem saveKML_overwrite_guard:
  "(\<not> overwrite \<and> filename \<in> dom files \<longrightarrow>
      saveKML ops urlopen fromstring pyval tostring now today base_url can_write filename overwrite
          kwargs files net
        = (Inl (OSError (''File '' @ filename @ '' exists and overwrite=False.'')), files, net))
   \<and> ((overwrite \<or> filename \<notin> dom files)
        \<and> getKML ops urlopen fromstring pyval tostring now today base_url
             (case map_of kwargs ''nolabels'' of None \<Rightarrow> False | Some v \<Rightarrow> truthy ops v)
             (AList.delete ''nolabels'' kwargs) net = (Inr kml_string, net')
        \<and> can_write filename \<longrightarrow>
      saveKML ops urlopen fromstring pyval tostring now today base_url can_write filename overwrite
          kwargs files net
        = (Inr (), files(filename \<mapsto> kml_string), net'))"
  by (auto simp: saveKML_def)

theorem saveKML_overwrite_guard_witness:
  "saveKML tenths (\<lambda>a. Inr ''<ResultSet/>'') (\<lambda>d. Inr event_list) tenths_pyval (\<lambda>k. ''<kml/>'')
       ''2020-02-02 10:00:00'' ''2020-02-02'' ''http://localhost:8080'' (\<lambda>f. True)
       ''events.kml'' False [(''min_magnitude'', PInt 3)] [''events.kml'' \<mapsto> ''old''] []
     = (Inl (OSError ''File events.kml exists and overwrite=False.''), [''events.kml'' \<mapsto> ''old''], [])
   \<and> saveKML tenths (\<lambda>a. Inr ''<ResultSet/>'') (\<lambda>d. Inr event_list) tenths_pyval (\<lambda>k. ''<kml/>'')
       ''2020-02-02 10:00:00'' ''2020-02-02'' ''http://localhost:8080'' (\<lambda>f. True)
       ''events.kml'' True [(''min_magnitude'', PInt 3)] [''events.kml'' \<mapsto> ''old''] []
     = (Inr (), [''events.kml'' \<mapsto> ''<kml/>''],
        [OpenUrl ''http://localhost:8080/seismology/event/getList?min_magnitude=3''])"
proof -
  have there: "''events.kml'' \<in> dom [''events.kml'' \<mapsto> ''old'']" by simp
  have kml: "getKML tenths (\<lambda>a. Inr ''<ResultSet/>'') (\<lambda>d. Inr event_list) tenths_pyval (\<lambda>k. ''<kml/>'')
       ''2020-02-02 10:00:00'' ''2020-02-02'' ''http://localhost:8080''
       (case map_of [(''min_magnitude'', PInt 3)] ''nolabels'' of None \<Rightarrow> False | Some v \<Rightarrow> truthy tenths v)
       (AList.delete ''nolabels'' [(''min_magnitude'', PInt 3)]) []
     = (Inr ''<kml/>'', [OpenUrl ''http://localhost:8080/seismology/event/getList?min_magnitude=3''])"
    by code_simp
  show ?thesis
    using there kml
      saveKML_overwrite_guard [of False "''events.kml''" "[''events.kml'' \<mapsto> ''old'']" tenths
        "\<lambda>a. Inr ''<ResultSet/>''" "\<lambda>d. Inr event_list" tenths_pyval "\<lambda>k. ''<kml/>''"
        "''2020-02-02 10:00:00''" "''2020-02-02''" "''http://localhost:8080''" "\<lambda>f. True"
        "[(''min_magnitude'', PInt 3)]" "[]" "''<kml/>''"
        "[OpenUrl ''http://localhost:8080/seismology/event/getList?min_magnitude=3'']"]
      saveKML_overwrite_guard [of True "''events.kml''" "[''events.kml'' \<mapsto> ''old'']" tenths
        "\<lambda>a. Inr ''<ResultSet/>''" "\<lambda>d. Inr event_list" tenths_pyval "\<lambda>k. ''<kml/>''"
        "''2020-02-02 10:00:00''" "''2020-02-02''" "''http://localhost:8080''" "\<lambda>f. True"
        "[(''min_magnitude'', PInt 3)]" "[]" "''<kml/>''"
        "[OpenUrl ''http://localhost:8080/seismology/event/getList?min_magnitude=3'']"]
    by simp
qed

end
